theory Spec2Isabelle
  imports Main "HOL-Library.Word"
begin

unbundle bit_operations_syntax

section \<open>Bytes, strings and errors\<close>

text \<open>
  A Go \<^verbatim>\<open>[]byte\<close> is a list of 8-bit words. A Go \<^verbatim>\<open>string\<close> is a byte sequence
  as well, so \<^verbatim>\<open>string(b)\<close> and \<^verbatim>\<open>[]byte(s)\<close> are the identity here. Text
  literals of the source are written as Isabelle strings and turned into bytes by
  \<open>bytes_of\<close>.
\<close>

type_synonym byte = "8 word"
type_synonym bytes = "byte list"

definition bytes_of :: "string \<Rightarrow> bytes" where
  "bytes_of s = map of_char s"

text \<open>
  Errors are values. \<open>EOF\<close> and \<open>ErrUnexpectedEOF\<close> are the two sentinels of Go's
  \<^verbatim>\<open>io\<close> package, \<open>ErrStream\<close> stands for any other failure of the underlying
  stream, \<open>ErrLib\<close> for an error returned by one of the payload codec libraries (with
  its message), \<open>Str\<close> is \<^verbatim>\<open>errors.Str\<close> (also the result of \<^verbatim>\<open>errors.Errorf\<close>), and
  \<open>E op kind err\<close> is \<^verbatim>\<open>errors.E(op, kind, err)\<close>, the kind being optional.
\<close>

datatype kind = FileNotFound

datatype go_error =
    EOF
  | ErrUnexpectedEOF
  | ErrStream
  | ErrLib bytes
  | Str bytes
  | E string "kind option" go_error

text \<open>\<^verbatim>\<open>err.Error()\<close>: the message of an error, operations prefixed as \<^verbatim>\<open>op: msg\<close>.\<close>

fun ErrorText :: "go_error \<Rightarrow> bytes" where
  "ErrorText EOF = bytes_of ''EOF''"
| "ErrorText ErrUnexpectedEOF = bytes_of ''unexpected EOF''"
| "ErrorText ErrStream = bytes_of ''stream error''"
| "ErrorText (ErrLib m) = m"
| "ErrorText (Str m) = m"
| "ErrorText (E op k e) = bytes_of op @ bytes_of '': '' @ ErrorText e"

text \<open>
  A call either returns or panics; a panic carries the runtime's message. Deferred
  calls run in both cases, so the state after a panic is part of the result.
\<close>

datatype 'a outcome = Returned 'a | Panic string

section \<open>Frame\<close>

text \<open>
  The frame package is not among the source files; its operations are modelled from the
  specification's data model and wire format (header of three little-endian words,
  options appended to the header, CRC-32 over the first eight header bytes).
\<close>

record Frame =
  header :: bytes
  payload :: bytes

text \<open>Modelled from the spec: the flag bits of the wire format table, missing from the sources.\<close>

definition CodecRaw :: byte where "CodecRaw = 0x01"
definition CodecJSON :: byte where "CodecJSON = 0x02"
definition CodecMsgpack :: byte where "CodecMsgpack = 0x04"
definition CodecGob :: byte where "CodecGob = 0x08"
definition CodecProto :: byte where "CodecProto = 0x10"
definition ERROR :: byte where "ERROR = 0x20"

text \<open>Modelled from the spec: the protocol version, current value 1.\<close>

definition Version1 :: byte where "Version1 = 1"

text \<open>Modelled from the spec: the size of a header or option word, 4 bytes.\<close>

definition WORD :: nat where "WORD = 4"

text \<open>Modelled from the spec: \<open>new()\<close>, a 12-byte header with HL = 3, version = 1,
  flags = 0, payload length = 0, crc = 0, and no payload.\<close>

definition NewFrame :: Frame where
  "NewFrame = \<lparr>header = [0x31, 0, 0, 0, 0, 0, 0, 0, 0, 0, 0, 0], payload = []\<rparr>"

text \<open>Modelled from the spec: \<open>reset()\<close>, the state of a new frame, for pool reuse.\<close>

definition Reset :: "Frame \<Rightarrow> Frame" where
  "Reset f = NewFrame"

text \<open>Modelled from the spec: \<open>read_hl\<close>, the high nibble of byte 0.\<close>

definition ReadHL :: "bytes \<Rightarrow> byte" where
  "ReadHL h = drop_bit 4 (h ! 0)"

text \<open>Modelled from the spec: \<open>set_version\<close> writes the low nibble of byte 0.\<close>

definition WriteVersion :: "Frame \<Rightarrow> byte \<Rightarrow> Frame" where
  "WriteVersion f v = f\<lparr>header := (header f)[0 := ((header f ! 0) AND 0xF0) OR (v AND 0x0F)]\<rparr>"

text \<open>Modelled from the spec: \<open>read_flags\<close>, byte 1 of the header.\<close>

definition ReadFlags :: "Frame \<Rightarrow> byte" where
  "ReadFlags f = header f ! 1"

text \<open>Modelled from the spec: the flag write of the RPC layer. The codec byte is adopted
  on a frame whose flags are still zero, and the error handler sets the \<open>ERROR\<close> flag
  replacing the codec bits: the written byte becomes the flags byte.\<close>

definition WriteFlags :: "Frame \<Rightarrow> byte \<Rightarrow> Frame" where
  "WriteFlags f fl = f\<lparr>header := (header f)[1 := fl]\<rparr>"

text \<open>Modelled from the spec: all multi-byte integers on the wire are little-endian;
  the four bytes of a 32-bit word.\<close>

definition u32_bytes :: "32 word \<Rightarrow> bytes" where
  "u32_bytes w = [ucast w, ucast (drop_bit 8 w), ucast (drop_bit 16 w), ucast (drop_bit 24 w)]"

text \<open>Modelled from the spec: the little-endian 32-bit word at offset \<open>i\<close>.\<close>

definition u32_at :: "bytes \<Rightarrow> nat \<Rightarrow> 32 word" where
  "u32_at h i = ucast (h ! i) OR push_bit 8 (ucast (h ! (i + 1)))
              OR push_bit 16 (ucast (h ! (i + 2))) OR push_bit 24 (ucast (h ! (i + 3)))"

text \<open>Modelled from the spec: the payload length is the second header word, bytes 4 to 7.\<close>

definition ReadPayloadLen :: "bytes \<Rightarrow> 32 word" where
  "ReadPayloadLen h = u32_at h 4"

text \<open>Modelled from the spec: \<open>set_payload_length\<close> writes bytes 4 to 7.\<close>

definition WritePayloadLen :: "Frame \<Rightarrow> 32 word \<Rightarrow> Frame" where
  "WritePayloadLen f n = f\<lparr>header := take 4 (header f) @ u32_bytes n @ drop 8 (header f)\<rparr>"

text \<open>Modelled from the spec: \<open>write_payload\<close> stores a copy of the bytes.\<close>

definition WritePayload :: "Frame \<Rightarrow> bytes \<Rightarrow> Frame" where
  "WritePayload f d = f\<lparr>payload := d\<rparr>"

text \<open>Modelled from the spec: CRC-32 with the reversed polynomial \<open>0xEDB88320\<close>; one
  bit of the register.\<close>

definition crc_shift :: "32 word \<Rightarrow> 32 word" where
  "crc_shift c = (if bit c 0 then drop_bit 1 c XOR 0xEDB88320 else drop_bit 1 c)"

text \<open>Modelled from the spec: CRC-32, one byte of input.\<close>

definition crc_update :: "32 word \<Rightarrow> byte \<Rightarrow> 32 word" where
  "crc_update c b = (crc_shift ^^ 8) (c XOR ucast b)"

text \<open>Modelled from the spec: CRC-32 with initial value \<open>0xFFFFFFFF\<close> and final XOR
  \<open>0xFFFFFFFF\<close>, the zlib and gzip variant.\<close>

definition ChecksumIEEE :: "bytes \<Rightarrow> 32 word" where
  "ChecksumIEEE bs = foldl crc_update 0xFFFFFFFF bs XOR 0xFFFFFFFF"

text \<open>Modelled from the spec: \<open>write_crc\<close> computes the CRC over the first 8 header bytes
  and stores it in bytes 8 to 11.\<close>

definition WriteCRC :: "Frame \<Rightarrow> Frame" where
  "WriteCRC f = f\<lparr>header := take 8 (header f) @ u32_bytes (ChecksumIEEE (take 8 (header f)))
                              @ drop 12 (header f)\<rparr>"

text \<open>Modelled from the spec: \<open>verify_crc\<close> recomputes the CRC and compares.\<close>

definition VerifyCRC :: "bytes \<Rightarrow> bool" where
  "VerifyCRC h = (u32_at h 8 = ChecksumIEEE (take 8 h))"

text \<open>Modelled from the spec: \<open>append_options\<close> of the receive protocol appends the option
  bytes read from the wire to the header (the header length is already in byte 0).\<close>

definition AppendOptions :: "Frame \<Rightarrow> bytes \<Rightarrow> Frame" where
  "AppendOptions f opts = f\<lparr>header := header f @ opts\<rparr>"

text \<open>Modelled from the spec: HL, the high nibble of byte 0, grows by one.\<close>

definition incrementHL :: "bytes \<Rightarrow> bytes" where
  "incrementHL h = h[0 := ((h ! 0) AND 0x0F) OR push_bit 4 (ReadHL h + 1)]"

text \<open>Modelled from the spec: writing option words appends each as a little-endian word
  and grows HL by one per word.\<close>

fun WriteOptions :: "Frame \<Rightarrow> 32 word list \<Rightarrow> Frame" where
  "WriteOptions f [] = f"
| "WriteOptions f (w # ws) =
     WriteOptions (f\<lparr>header := incrementHL (header f) @ u32_bytes w\<rparr>) ws"

text \<open>Modelled from the spec: \<open>read_options\<close> decodes the HL - 3 words that follow the
  12 fixed header bytes.\<close>

definition ReadOptions :: "bytes \<Rightarrow> 32 word list" where
  "ReadOptions h =
     (if ReadHL h \<le> 3 then []
      else map (\<lambda>i. u32_at h (12 + WORD * i)) [0 ..< unat (ReadHL h - 3)])"

text \<open>Modelled from the spec: the wire format. The image of a frame with the given flags,
  option words and payload: byte 0 holds HL = 3 + the number of options and version 1,
  bytes 2 and 3 are zero, then the payload length, the CRC of the first 8 bytes, the
  options.\<close>

definition wire_frame :: "byte \<Rightarrow> 32 word list \<Rightarrow> bytes \<Rightarrow> Frame" where
  "wire_frame fl opts p =
     (let h8 = [push_bit 4 (of_nat (3 + length opts)) OR Version1, fl, 0, 0]
               @ u32_bytes (of_nat (length p))
      in \<lparr>header = h8 @ u32_bytes (ChecksumIEEE h8) @ concat (map u32_bytes opts), payload = p\<rparr>)"

text \<open>Modelled from the spec: the send protocol, header (with options) and payload one
  after the other.\<close>

definition wire :: "Frame \<Rightarrow> bytes" where
  "wire f = header f @ payload f"

section \<open>Byte streams\<close>

text \<open>
  An \<^verbatim>\<open>io.Reader\<close> is modelled by what it will still deliver: the bytes \<open>pending\<close>,
  after which the stream ends, cleanly (\<open>EOF\<close>) or, when \<open>broken\<close>, with a failure of the
  stream. \<open>deadliner\<close> says whether the reader has a \<^verbatim>\<open>SetReadDeadline\<close> method (\<open>None\<close>
  if not) and whether a call of it succeeds; \<open>deadline\<close> records the last deadline set,
  in seconds from the time of the call. Blocking and the passing of time are not modelled.
\<close>

record Reader =
  pending :: bytes
  broken :: bool
  deadliner :: "bool option"
  deadline :: "nat option"

text \<open>\<^verbatim>\<open>io.ReadFull(r, buf)\<close> with \<open>n = len(buf)\<close>: the bytes read, the error, the reader
  after. Nothing is read for an empty buffer; a stream that ends before the first byte
  gives \<open>EOF\<close>, one that ends after some bytes gives \<open>ErrUnexpectedEOF\<close>.\<close>

definition ReadFull :: "Reader \<Rightarrow> nat \<Rightarrow> bytes \<times> go_error option \<times> Reader" where
  "ReadFull r n =
     (if n \<le> length (pending r) then (take n (pending r), None, r\<lparr>pending := drop n (pending r)\<rparr>)
      else if broken r then (pending r, Some ErrStream, r\<lparr>pending := []\<rparr>)
      else if pending r = [] then ([], Some EOF, r)
      else (pending r, Some ErrUnexpectedEOF, r\<lparr>pending := []\<rparr>))"

text \<open>\<^verbatim>\<open>io.ReadAll(r)\<close>: everything up to the end of the stream; a clean end is no error.\<close>

definition ReadAll :: "Reader \<Rightarrow> bytes \<times> go_error option \<times> Reader" where
  "ReadAll r = (pending r, if broken r then Some ErrStream else None, r\<lparr>pending := []\<rparr>)"

text \<open>\<^verbatim>\<open>d.SetReadDeadline(time.Now().Add(time.Second * s))\<close> on a reader that has the method.\<close>

definition SetReadDeadline :: "Reader \<Rightarrow> nat \<Rightarrow> go_error option \<times> Reader" where
  "SetReadDeadline r s =
     (if deadliner r = Some True then (None, r\<lparr>deadline := Some s\<rparr>) else (Some ErrStream, r))"

text \<open>A read into a buffer overwrites its first bytes.\<close>

definition fill :: "bytes \<Rightarrow> bytes \<Rightarrow> bytes" where
  "fill buf d = d @ drop (length d) buf"

section \<open>Receiving a frame\<close>

definition res :: bytes where
  "res = bytes_of ''Could not op''"

definition validationError :: string where
  "validationError = ''validation failed on the message sent to STDOUT, see: https://roadrunner.dev/docs/known-issues-stdout-crc/current/en, invalid message: ''"

text \<open>\<^verbatim>\<open>errors.Errorf(validationError, x)\<close>: the format ends in \<^verbatim>\<open>%s\<close>.\<close>

definition Errorf_validation :: "bytes \<Rightarrow> go_error" where
  "Errorf_validation x = Str (bytes_of validationError @ x)"

definition op_receive :: string where
  "op_receive = ''goridge_frame_receive''"

text \<open>The body of \<^verbatim>\<open>ReceiveFrame\<close> in four parts, in the order of the source: the
  foreign-output check, the options, the CRC check, the payload. Each returns the error
  (\<open>None\<close> for \<^verbatim>\<open>nil\<close>), the frame and the reader.\<close>

definition receive_foreign :: "Reader \<Rightarrow> Frame \<Rightarrow> go_error option \<times> Frame \<times> Reader" where
  "receive_foreign relay fr =
     (case ReadAll relay of (data, errRa, relay') \<Rightarrow>
        if errRa = None \<and> length data > 0
        then (Some (E op_receive (Some FileNotFound) (Str (header fr @ data))), fr, relay')
        else (Some (E op_receive (Some FileNotFound) (Str (bytes_of ''file not found''))), fr, relay'))"

definition receive_crc_failed :: "Reader \<Rightarrow> Frame \<Rightarrow> go_error option \<times> Frame \<times> Reader" where
  "receive_crc_failed relay fr =
     (if deadliner relay \<noteq> None then
        (case SetReadDeadline relay 2 of (err, relay') \<Rightarrow>
           if err \<noteq> None then (Some (E op_receive None (Errorf_validation (header fr))), fr, relay')
           else (case ReadAll relay' of (resp, _, relay'') \<Rightarrow>
                   (Some (E op_receive None (Errorf_validation (header fr @ resp))), fr, relay'')))
      else (Some (E op_receive None (Errorf_validation (header fr))), fr, relay))"

text \<open>The payload part knows the variable \<^verbatim>\<open>err\<close> of the source, which is what the
  end-of-file branch returns. The slice pool of the source (\<^verbatim>\<open>get\<close>, \<^verbatim>\<open>put\<close>) only
  provides the buffer of \<open>pl\<close> bytes that is read into.\<close>

definition receive_payload ::
  "go_error option \<Rightarrow> Reader \<Rightarrow> Frame \<Rightarrow> go_error option \<times> Frame \<times> Reader" where
  "receive_payload err relay fr =
     (let pl = ReadPayloadLen (header fr) in
      if pl = 0 then (None, fr, relay)
      else (case ReadFull relay (unat pl) of (pb, err2, relay') \<Rightarrow>
              (case err2 of
                 Some e2 \<Rightarrow> if e2 = EOF then (err, fr, relay')
                            else (Some (E op_receive None e2), fr, relay')
               | None \<Rightarrow> (None, WritePayload fr pb, relay'))))"

definition receive_checked :: "go_error option \<Rightarrow> Reader \<Rightarrow> Frame \<Rightarrow> go_error option \<times> Frame \<times> Reader" where
  "receive_checked err relay fr =
     (if \<not> VerifyCRC (header fr) then receive_crc_failed relay fr
      else receive_payload err relay fr)"

definition ReceiveFrame :: "Reader \<Rightarrow> Frame \<Rightarrow> go_error option \<times> Frame \<times> Reader" where
  "ReceiveFrame relay fr =
     (case ReadFull relay (length (header fr)) of (hb, err, relay1) \<Rightarrow>
        let fr1 = fr\<lparr>header := fill (header fr) hb\<rparr> in
        (case err of
           Some e \<Rightarrow> (Some e, fr1, relay1)
         | None \<Rightarrow>
             if header fr1 = res then receive_foreign relay1 fr1
             else if ReadHL (header fr1) > 3 then
               (let optsLen = unat (ReadHL (header fr1) - 3) * WORD in
                case ReadFull relay1 optsLen of (opts, err', relay2) \<Rightarrow>
                  (case err' of
                     Some e \<Rightarrow> if e = EOF then (Some e, fr1, relay2)
                               else (Some (E op_receive None e), fr1, relay2)
                   | None \<Rightarrow> receive_checked err' relay2 (AppendOptions fr1 opts)))
             else receive_checked err relay1 fr1))"

section \<open>The RPC codec\<close>

subsection \<open>Collaborators\<close>

text \<open>
  Modelled from the spec: the relay, whose implementations are not among the source
  files. \<open>Receive\<close> follows the receive protocol, which is \<open>ReceiveFrame\<close> on the
  relay's stream; \<open>Send\<close> writes header, options and payload, and fails when the stream
  does. The frames written are recorded in \<open>sent\<close>, in order.
\<close>

record Relay =
  rwc :: Reader
  sent :: "Frame list"
  write_fails :: bool

definition Receive :: "Relay \<Rightarrow> Frame \<Rightarrow> go_error option \<times> Frame \<times> Relay" where
  "Receive rl fr = (case ReceiveFrame (rwc rl) fr of (err, fr', rd) \<Rightarrow> (err, fr', rl\<lparr>rwc := rd\<rparr>))"

definition Send :: "Relay \<Rightarrow> Frame \<Rightarrow> go_error option \<times> Relay" where
  "Send rl fr = (if write_fails rl then (Some ErrStream, rl) else (None, rl\<lparr>sent := sent rl @ [fr]\<rparr>))"

text \<open>
  A value of Go's \<^verbatim>\<open>any\<close>, as far as the codec looks at its dynamic type: \<^verbatim>\<open>nil\<close>, a
  \<^verbatim>\<open>[]byte\<close>, a \<^verbatim>\<open>*[]byte\<close> (with the slice it points to), a \<^verbatim>\<open>proto.Message\<close>, or
  anything else.
\<close>

datatype 'v go_any = AnyNil | ByteSlice bytes | ByteSlicePtr bytes | ProtoMessage 'v | Value 'v

text \<open>
  The payload codec libraries (protobuf, encoding/json, msgpack, encoding/gob) are
  parameters: each function returns the error's message (\<open>Inl\<close>) or its result.
\<close>

record 'v codecs =
  proto_Marshal :: "'v \<Rightarrow> bytes + bytes"
  json_Marshal :: "'v go_any \<Rightarrow> bytes + bytes"
  msgpack_Marshal :: "'v go_any \<Rightarrow> bytes + bytes"
  gob_Encode :: "'v go_any \<Rightarrow> bytes + bytes"
  proto_Unmarshal :: "bytes \<Rightarrow> 'v \<Rightarrow> bytes + 'v"
  json_Unmarshal :: "bytes \<Rightarrow> 'v go_any \<Rightarrow> bytes + 'v go_any"
  msgpack_Unmarshal :: "bytes \<Rightarrow> 'v go_any \<Rightarrow> bytes + 'v go_any"
  gob_Decode :: "bytes \<Rightarrow> 'v go_any \<Rightarrow> bytes + 'v go_any"

text \<open>\<^verbatim>\<open>rpc.Request\<close> and \<^verbatim>\<open>rpc.Response\<close> of net/rpc.\<close>

record Request =
  ServiceMethod :: bytes
  Seq :: "64 word"

record Response = Request +
  Error :: bytes

subsection \<open>State\<close>

text \<open>
  The fields of \<^verbatim>\<open>Codec\<close>: the relay, the frame retained between the header read and
  the body read (\<open>None\<close> is \<^verbatim>\<open>nil\<close>), the per-request codec table (a \<^verbatim>\<open>sync.Map\<close> from
  \<^verbatim>\<open>uint64\<close> to \<^verbatim>\<open>byte\<close>) and the frame pool as the list of idle frames. The model is of
  codecs built by \<^verbatim>\<open>NewCodec\<close> (here from the relay over the connection), whose pools
  make a new item when they are empty. The buffer pool hands out empty buffers and has
  no other effect, so buffers are local values. \<^verbatim>\<open>Close\<close> and the field \<^verbatim>\<open>closed\<close> are
  left out. Calls are sequential: the interleaving of concurrent calls is not modelled.
  What is kept of it is \<open>calls\<close>, the method calls the codec has made on the
  \<^verbatim>\<open>sync.Map\<close>, in order: each call is one atomic operation of the map, so a load
  followed by a delete (two calls, between which another goroutine can run) differs
  from one \<^verbatim>\<open>LoadAndDelete\<close>.
\<close>

datatype map_call =
    CallLoad "64 word"
  | CallStore "64 word" byte
  | CallDelete "64 word"
  | CallLoadAndDelete "64 word"

record Codec =
  relay :: Relay
  frame :: "Frame option"
  codec :: "64 word \<rightharpoonup> byte"
  fPool :: "Frame list"
  calls :: "map_call list"

definition NewCodec :: "Relay \<Rightarrow> Codec" where
  "NewCodec rl = \<lparr>relay = rl, frame = None, codec = Map.empty, fPool = [], calls = []\<rparr>"

definition getFrame :: "Codec \<Rightarrow> Frame \<times> Codec" where
  "getFrame c = (case fPool c of [] \<Rightarrow> (NewFrame, c) | f # fs \<Rightarrow> (f, c\<lparr>fPool := fs\<rparr>))"

definition putFrame :: "Codec \<Rightarrow> Frame \<Rightarrow> Codec" where
  "putFrame c f = c\<lparr>fPool := Reset f # fPool c\<rparr>"

text \<open>\<^verbatim>\<open>c.codec.Store(key, value)\<close>: one call on the map, which sets the entry.\<close>

definition Store :: "Codec \<Rightarrow> 64 word \<Rightarrow> byte \<Rightarrow> Codec" where
  "Store c k v = c\<lparr>codec := (codec c)(k \<mapsto> v), calls := calls c @ [CallStore k v]\<rparr>"

text \<open>\<^verbatim>\<open>c.codec.LoadAndDelete(key)\<close>: one call on the map, which gives the value loaded
  (\<open>None\<close> when the key is absent) and leaves the map without the key.\<close>

definition LoadAndDelete :: "Codec \<Rightarrow> 64 word \<Rightarrow> byte option \<times> Codec" where
  "LoadAndDelete c k =
     (codec c k, c\<lparr>codec := (codec c)(k := None), calls := calls c @ [CallLoadAndDelete k]\<rparr>)"

subsection \<open>Writing a response\<close>

definition op_write :: string where
  "op_write = ''goridge_write_response''"

definition op_handle :: string where
  "op_handle = ''handle codec error''"

definition handleError :: "Codec \<Rightarrow> Response \<Rightarrow> Frame \<Rightarrow> bytes \<Rightarrow> go_error option \<times> Codec" where
  "handleError c r fr err =
     (let buf = ServiceMethod r;
          fr1 = WriteFlags fr ERROR;
          buf = (if err \<noteq> [] then buf @ err else buf);
          fr2 = WritePayloadLen fr1 (of_nat (length buf));
          fr3 = WritePayload fr2 buf;
          fr4 = WriteCRC fr3;
          rl = snd (Send (relay c) fr4)
      in (Some (E op_handle None (Str (Error r))), c\<lparr>relay := rl\<rparr>))"

text \<open>The tail that every branch of the switch repeats in the source: the method name and
  the body bytes go to a buffer, the buffer to the payload, then length, CRC and send.\<close>

definition send_payload :: "Codec \<Rightarrow> Response \<Rightarrow> Frame \<Rightarrow> bytes \<Rightarrow> go_error option \<times> Codec" where
  "send_payload c r fr d =
     (let buf = ServiceMethod r @ d;
          fr1 = WritePayloadLen fr (of_nat (length buf));
          fr2 = WritePayload fr1 buf;
          fr3 = WriteCRC fr2
      in case Send (relay c) fr3 of (err, rl) \<Rightarrow> (err, c\<lparr>relay := rl\<rparr>))"

definition returned :: "go_error option \<times> Codec \<Rightarrow> go_error option outcome \<times> Codec" where
  "returned p = (Returned (fst p), snd p)"

text \<open>The switch of \<^verbatim>\<open>WriteResponse\<close> over the codec byte, in the order of the source.\<close>

definition write_body ::
  "'v codecs \<Rightarrow> Codec \<Rightarrow> Response \<Rightarrow> Frame \<Rightarrow> byte \<Rightarrow> 'v go_any \<Rightarrow> go_error option outcome \<times> Codec" where
  "write_body L c r fr k body =
     (if k AND CodecProto \<noteq> 0 then
        (case body of
           ProtoMessage m \<Rightarrow>
             (case proto_Marshal L m of
                Inl e \<Rightarrow> returned (handleError c r fr e)
              | Inr d \<Rightarrow> returned (send_payload c r fr d))
         | _ \<Rightarrow> (Panic ''interface conversion: interface {} is not proto.Message'', c))
      else if k AND CodecRaw \<noteq> 0 then
        (case body of
           ByteSlice data \<Rightarrow> returned (send_payload c r fr data)
         | ByteSlicePtr data \<Rightarrow> returned (send_payload c r fr data)
         | _ \<Rightarrow> returned (handleError c r fr (bytes_of ''unknown Raw payload type'')))
      else if k AND CodecJSON \<noteq> 0 then
        (case json_Marshal L body of
           Inl e \<Rightarrow> returned (handleError c r fr e)
         | Inr data \<Rightarrow> returned (send_payload c r fr data))
      else if k AND CodecMsgpack \<noteq> 0 then
        (case msgpack_Marshal L body of
           Inl e \<Rightarrow> (Returned (Some (E op_write None (ErrLib e))), c)
         | Inr b \<Rightarrow> returned (send_payload c r fr b))
      else if k AND CodecGob \<noteq> 0 then
        (case gob_Encode L body of
           Inl e \<Rightarrow> (Returned (Some (E op_write None (ErrLib e))), c)
         | Inr d \<Rightarrow> returned (send_payload c r fr d))
      else returned (handleError c r fr (ErrorText (E op_write None (Str (bytes_of ''unknown codec''))))))"

text \<open>\<^verbatim>\<open>WriteResponse\<close>. The value loaded from the table is \<^verbatim>\<open>nil\<close> when the key is
  absent, and the switch asserts it to be a byte: that assertion panics on \<^verbatim>\<open>nil\<close>. The
  deferred \<^verbatim>\<open>putFrame\<close> runs on every way out.\<close>

definition WriteResponse ::
  "'v codecs \<Rightarrow> Codec \<Rightarrow> Response \<Rightarrow> 'v go_any \<Rightarrow> go_error option outcome \<times> Codec" where
  "WriteResponse L c r body =
     (case getFrame c of (fr0, c1) \<Rightarrow>
        let fr1 = WriteOptions fr0 [ucast (Seq r), of_nat (length (ServiceMethod r))];
            fr2 = WriteVersion fr1 Version1
        in case LoadAndDelete c1 (Seq r) of (loaded, c2) \<Rightarrow>
          let fr3 = (case loaded of None \<Rightarrow> WriteFlags fr2 CodecGob | Some k \<Rightarrow> WriteFlags fr2 k)
          in case (if Error r \<noteq> [] then returned (handleError c2 r fr3 (Error r))
                   else case loaded of
                          None \<Rightarrow> (Panic ''interface conversion: interface {} is nil, not uint8'', c2)
                        | Some k \<Rightarrow> write_body L c2 r fr3 k body)
             of (result, c3) \<Rightarrow> (result, putFrame c3 fr3))"

subsection \<open>Reading a request\<close>

definition op_header :: string where
  "op_header = ''goridge_read_request_header''"

definition op_body :: string where
  "op_body = ''goridge_read_request_body''"

definition two_options :: bytes where
  "two_options = bytes_of ''should be 2 options. SEQ_ID and METHOD_LEN''"

definition storeCodec :: "Codec \<Rightarrow> Request \<Rightarrow> byte \<Rightarrow> go_error option \<times> Codec" where
  "storeCodec c r flag =
     (if flag AND CodecProto \<noteq> 0 then (None, Store c (Seq r) CodecProto)
      else if flag AND CodecJSON \<noteq> 0 then (None, Store c (Seq r) CodecJSON)
      else if flag AND CodecRaw \<noteq> 0 then (None, Store c (Seq r) CodecRaw)
      else if flag AND CodecMsgpack \<noteq> 0 then (None, Store c (Seq r) CodecMsgpack)
      else if flag AND CodecGob \<noteq> 0 then (None, Store c (Seq r) CodecGob)
      else (None, Store c (Seq r) CodecGob))"

text \<open>\<^verbatim>\<open>ReadRequestHeader\<close> returns its outcome, the request it filled in and the codec.
  The slice expression \<^verbatim>\<open>f.Payload()[:opts[1]]\<close> panics when the bound exceeds the
  payload (a payload holds exactly the bytes written to it); by then \<^verbatim>\<open>r.Seq\<close> is set
  and the frame is neither retained nor put back.\<close>

definition ReadRequestHeader :: "Codec \<Rightarrow> Request \<Rightarrow> go_error option outcome \<times> Request \<times> Codec" where
  "ReadRequestHeader c r =
     (case getFrame c of (f0, c1) \<Rightarrow>
      case Receive (relay c1) f0 of (err, f, rl) \<Rightarrow>
        let c2 = c1\<lparr>relay := rl\<rparr> in
        case err of
          Some e \<Rightarrow> (Returned (Some e), r, putFrame c2 f)
        | None \<Rightarrow>
            let opts = ReadOptions (header f) in
            if length opts \<noteq> 2 then
              (Returned (Some (E op_header None (Str two_options))), r, putFrame c2 f)
            else
              let r1 = r\<lparr>Seq := ucast (opts ! 0)\<rparr> in
              if unat (opts ! 1) > length (payload f) then
                (Panic ''slice bounds out of range'', r1, c2)
              else
                let r2 = r1\<lparr>ServiceMethod := take (unat (opts ! 1)) (payload f)\<rparr>;
                    c3 = c2\<lparr>frame := Some f\<rparr>
                in case storeCodec c3 r2 (ReadFlags f) of (e, c4) \<Rightarrow> (Returned e, r2, c4))"

text \<open>What every branch of the switch in \<^verbatim>\<open>ReadRequestBody\<close> does first: check the
  options, slice the body off the payload, and return early when it is empty. \<open>Inl\<close> is a
  way out of the function, \<open>Inr\<close> the body bytes.\<close>

definition body_bytes :: "Frame \<Rightarrow> go_error option outcome + bytes" where
  "body_bytes f =
     (let opts = ReadOptions (header f) in
      if length opts \<noteq> 2 then Inl (Returned (Some (E op_body None (Str two_options))))
      else if unat (opts ! 1) > length (payload f) then Inl (Panic ''slice bounds out of range'')
      else let p = drop (unat (opts ! 1)) (payload f)
           in if length p = 0 then Inl (Returned None) else Inr p)"

definition decoded :: "'v go_any \<Rightarrow> (go_error \<Rightarrow> go_error) \<Rightarrow> bytes + 'v go_any \<Rightarrow> go_error option outcome \<times> 'v go_any" where
  "decoded out wrap x = (case x of Inl e \<Rightarrow> (Returned (Some (wrap (ErrLib e))), out)
                                 | Inr out' \<Rightarrow> (Returned None, out'))"

text \<open>The switch of \<^verbatim>\<open>ReadRequestBody\<close> over the flags of the retained frame: the outcome
  and the value of \<open>out\<close> after the call.\<close>

definition read_body :: "'v codecs \<Rightarrow> Frame \<Rightarrow> 'v go_any \<Rightarrow> go_error option outcome \<times> 'v go_any" where
  "read_body L f out =
     (let flags = ReadFlags f in
      if flags AND CodecProto \<noteq> 0 then
        (case body_bytes f of
           Inl x \<Rightarrow> (x, out)
         | Inr p \<Rightarrow>
             (case out of
                ProtoMessage pOut \<Rightarrow>
                  decoded out (E op_body None) (map_sum id ProtoMessage (proto_Unmarshal L p pOut))
              | _ \<Rightarrow> (Returned (Some (E op_body None (Str (bytes_of ''message type is not a proto'')))), out)))
      else if flags AND CodecJSON \<noteq> 0 then
        (case body_bytes f of
           Inl x \<Rightarrow> (x, out)
         | Inr p \<Rightarrow> decoded out id (json_Unmarshal L p out))
      else if flags AND CodecGob \<noteq> 0 then
        (case body_bytes f of
           Inl x \<Rightarrow> (x, out)
         | Inr p \<Rightarrow> decoded out (E op_body None) (gob_Decode L p out))
      else if flags AND CodecRaw \<noteq> 0 then
        (case body_bytes f of
           Inl x \<Rightarrow> (x, out)
         | Inr p \<Rightarrow>
             (case out of
                ByteSlicePtr raw \<Rightarrow> (Returned None, ByteSlicePtr (raw @ p))
              | _ \<Rightarrow> (Returned None, out)))
      else if flags AND CodecMsgpack \<noteq> 0 then
        (case body_bytes f of
           Inl x \<Rightarrow> (x, out)
         | Inr p \<Rightarrow> decoded out id (msgpack_Unmarshal L p out))
      else (Returned (Some (E op_body None (Str (bytes_of ''unknown decoder used in frame'')))), out))"

text \<open>\<^verbatim>\<open>ReadRequestBody\<close>: the \<^verbatim>\<open>nil\<close> check returns before the \<^verbatim>\<open>defer\<close> statement is
  reached. The deferred \<^verbatim>\<open>putFrame(c.frame)\<close> resets the retained frame in place, so
  \<^verbatim>\<open>c.frame\<close> points to the reset frame afterwards.\<close>

definition ReadRequestBody ::
  "'v codecs \<Rightarrow> Codec \<Rightarrow> 'v go_any \<Rightarrow> go_error option outcome \<times> 'v go_any \<times> Codec" where
  "ReadRequestBody L c out =
     (if out = AnyNil then (Returned None, out, c)
      else case frame c of
             None \<Rightarrow> (Panic ''invalid memory address or nil pointer dereference'', out, c)
           | Some f \<Rightarrow>
               (case read_body L f out of
                  (result, out') \<Rightarrow> (result, out', putFrame (c\<lparr>frame := Some (Reset f)\<rparr>) f)))"

subsection \<open>The remembered codec, in the words of the specification\<close>

text \<open>
  Two definitions that follow the specification rather than the source, to compare the
  source with. \<open>remembered\<close> is the codec-bit decoding precedence: \<open>PROTO\<close>, \<open>JSON\<close>,
  \<open>RAW\<close>, \<open>MSGPACK\<close>, \<open>GOB\<close>, first match wins, default \<open>GOB\<close>. \<open>encode\<close> is the body
  serialized per the codec, \<open>None\<close> when the codec cannot serialize the value.
\<close>

definition remembered :: "byte \<Rightarrow> byte" where
  "remembered flag =
     (if flag AND CodecProto \<noteq> 0 then CodecProto
      else if flag AND CodecJSON \<noteq> 0 then CodecJSON
      else if flag AND CodecRaw \<noteq> 0 then CodecRaw
      else if flag AND CodecMsgpack \<noteq> 0 then CodecMsgpack
      else CodecGob)"




text \<open>Every frame put into the pool has been reset, so the idle frames of a codec are
  new frames.\<close>

definition pool_reset :: "Codec \<Rightarrow> bool" where
  "pool_reset c = list_all (\<lambda>f. f = NewFrame) (fPool c)"

section \<open>Facts about frames and streams\<close>

lemma length_u32_bytes [simp]: "length (u32_bytes w) = 4"
  by (simp add: u32_bytes_def)

lemma u32_roundtrip:
  "ucast (ucast w :: byte) OR push_bit 8 (ucast (ucast (drop_bit 8 w) :: byte))
     OR push_bit 16 (ucast (ucast (drop_bit 16 w) :: byte))
     OR push_bit 24 (ucast (ucast (drop_bit 24 w) :: byte)) = (w :: 32 word)"
  (is "?l = w")
proof (rule bit_word_eqI)
  fix n :: nat
  assume "n < LENGTH(32)"
  then have n: "n < 32" by simp
  consider "n < 8" | "8 \<le> n" "n < 16" | "16 \<le> n" "n < 24" | "24 \<le> n"
    by linarith
  then show "bit ?l n = bit w n"
    using n by cases (auto simp add: bit_simps)
qed

lemma u32_at_bytes: "length pre = i \<Longrightarrow> u32_at (pre @ u32_bytes w @ post) i = w"
  using u32_roundtrip [of w]
  by (simp add: u32_at_def u32_bytes_def nth_append)

lemma VerifyCRC_sealed: "length h8 = 8 \<Longrightarrow> VerifyCRC (h8 @ u32_bytes (ChecksumIEEE h8) @ rest)"
  by (simp add: VerifyCRC_def u32_at_bytes)

lemma u32_at_drop: "drop i h = u32_bytes w @ post \<Longrightarrow> u32_at h i = w"
proof -
  assume d: "drop i h = u32_bytes w @ post"
  then have "h = take i h @ u32_bytes w @ post"
    by (metis append_take_drop_id)
  moreover from d have "length (take i h) = i"
    by (metis length_u32_bytes drop_all length_take min.absorb2 nat_le_linear append_is_Nil_conv list.size(3) zero_neq_numeral)
  ultimately show ?thesis
    using u32_at_bytes [of "take i h" i w post] by simp
qed

lemma wire2_header:
  "header (wire_frame fl [a, b] p) =
     [0x51, fl, 0, 0] @ u32_bytes (of_nat (length p))
       @ u32_bytes (ChecksumIEEE ([0x51, fl, 0, 0] @ u32_bytes (of_nat (length p))))
       @ u32_bytes a @ u32_bytes b"
  by (simp add: wire_frame_def Let_def Version1_def)

lemma wire2_facts:
  "length (header (wire_frame fl [a, b] p)) = 20"
  "ReadHL (header (wire_frame fl [a, b] p)) = 5"
  "ReadFlags (wire_frame fl [a, b] p) = fl"
  "payload (wire_frame fl [a, b] p) = p"
  "VerifyCRC (header (wire_frame fl [a, b] p))"
  "ReadPayloadLen (header (wire_frame fl [a, b] p)) = of_nat (length p)"
  "ReadOptions (header (wire_frame fl [a, b] p)) = [a, b]"
  "take 12 (header (wire_frame fl [a, b] p)) \<noteq> res"
proof -
  let ?h = "header (wire_frame fl [a, b] p)"
  show "length ?h = 20" by (simp add: wire2_header)
  show "ReadHL ?h = 5" by (simp add: wire2_header ReadHL_def)
  show "ReadFlags (wire_frame fl [a, b] p) = fl" by (simp add: wire2_header ReadFlags_def)
  show "payload (wire_frame fl [a, b] p) = p" by (simp add: wire_frame_def Let_def)
  show "VerifyCRC ?h"
    using VerifyCRC_sealed [of "[0x51, fl, 0, 0] @ u32_bytes (of_nat (length p))" "u32_bytes a @ u32_bytes b"]
    by (simp add: wire2_header)
  show "ReadPayloadLen ?h = of_nat (length p)"
    unfolding ReadPayloadLen_def by (rule u32_at_drop) (simp add: wire2_header)
  have "u32_at ?h 12 = a" by (rule u32_at_drop) (simp add: wire2_header)
  moreover have "u32_at ?h 16 = b" by (rule u32_at_drop [where post = "[]"]) (simp add: wire2_header)
  moreover have "[0..<2::nat] = [0, 1]" by (simp add: upt_rec)
  ultimately show "ReadOptions ?h = [a, b]"
    by (simp add: ReadOptions_def \<open>ReadHL ?h = 5\<close> WORD_def)
  show "take 12 ?h \<noteq> res"
    by (simp add: wire2_header res_def bytes_of_def)
qed

lemma ReadFull_enough:
  "n \<le> length (pending rd) \<Longrightarrow>
   ReadFull rd n = (take n (pending rd), None, rd\<lparr>pending := drop n (pending rd)\<rparr>)"
  by (simp add: ReadFull_def)

lemma ReadFull_eof:
  "pending rd = [] \<Longrightarrow> \<not> broken rd \<Longrightarrow> 0 < n \<Longrightarrow> ReadFull rd n = ([], Some EOF, rd)"
  by (simp add: ReadFull_def)

lemma fill_full: "length d = length buf \<Longrightarrow> fill buf d = d"
  by (simp add: fill_def)

lemma header_prefix:
  assumes "12 \<le> length h"
  shows "ReadHL (h @ opts) = ReadHL h"
    and "VerifyCRC (h @ opts) = VerifyCRC h"
    and "ReadPayloadLen (h @ opts) = ReadPayloadLen h"
  using assms
  by (auto simp add: ReadHL_def VerifyCRC_def ReadPayloadLen_def u32_at_def nth_append)

lemma ReceiveFrame_header_options:
  assumes fr: "length (header fr) = 12"
    and h: "length h = 12" "h \<noteq> res"
    and opts: "length opts = (if ReadHL h > 3 then unat (ReadHL h - 3) * WORD else 0)"
    and rd: "pending rd = h @ opts @ rest"
  shows "ReceiveFrame rd fr = receive_checked None (rd\<lparr>pending := rest\<rparr>) (fr\<lparr>header := h @ opts\<rparr>)"
proof -
  have r1: "ReadFull rd 12 = (h, None, rd\<lparr>pending := opts @ rest\<rparr>)"
    using h rd by (simp add: ReadFull_enough)
  show ?thesis
  proof (cases "ReadHL h > 3")
    case True
    then have len: "length opts = unat (ReadHL h - 3) * WORD"
      using opts by simp
    have r2: "ReadFull (rd\<lparr>pending := opts @ rest\<rparr>) (unat (ReadHL h - 3) * WORD)
                = (opts, None, rd\<lparr>pending := rest\<rparr>)"
      using len by (simp add: ReadFull_enough)
    show ?thesis
      using True h fr r1 r2
      by (simp add: ReceiveFrame_def fill_full Let_def AppendOptions_def)
  next
    case False
    then have "opts = []" using opts by simp
    then show ?thesis
      using False h fr r1
      by (simp add: ReceiveFrame_def fill_full Let_def)
  qed
qed

lemma receive_checked_eof:
  assumes "VerifyCRC (header fr)" "ReadPayloadLen (header fr) \<noteq> 0"
    and "pending rd = []" "\<not> broken rd"
  shows "receive_checked err rd fr = (err, fr, rd)"
proof -
  have "0 < unat (ReadPayloadLen (header fr))"
    using assms(2) by (simp add: unat_gt_0)
  then have "ReadFull rd (unat (ReadPayloadLen (header fr))) = ([], Some EOF, rd)"
    using assms(3,4) by (rule_tac ReadFull_eof)
  then show ?thesis
    using assms(1,2) by (simp add: receive_checked_def receive_payload_def Let_def)
qed

lemma receive_checked_payload:
  assumes "VerifyCRC (header fr)" "ReadPayloadLen (header fr) = of_nat (length p)"
    and "length p < 2 ^ 32" "pending rd = p @ rest"
  shows "receive_checked err rd fr =
           (None, fr\<lparr>payload := (if p = [] then payload fr else p)\<rparr>, rd\<lparr>pending := rest\<rparr>)"
proof (cases "p = []")
  case True
  then show ?thesis
    using assms by (simp add: receive_checked_def receive_payload_def Let_def)
next
  case False
  have u: "unat (of_nat (length p) :: 32 word) = length p"
    using assms(3) by (simp add: unat_of_nat)
  then have nz: "(of_nat (length p) :: 32 word) \<noteq> 0"
    using False by (metis length_0_conv unat_0)
  have "ReadFull rd (length p) = (p, None, rd\<lparr>pending := rest\<rparr>)"
    using assms(4) by (simp add: ReadFull_enough)
  then show ?thesis
    using assms(1,2) False u nz
    by (simp add: receive_checked_def receive_payload_def Let_def WritePayload_def)
qed

lemma ReceiveFrame_wire2:
  assumes fr: "length (header fr) = 12"
    and rd: "pending rd = wire (wire_frame fl [a, b] p) @ rest"
    and p: "length p < 2 ^ 32"
  shows "ReceiveFrame rd fr =
           (None, \<lparr>header = header (wire_frame fl [a, b] p),
                   payload = (if p = [] then payload fr else p)\<rparr>, rd\<lparr>pending := rest\<rparr>)"
proof -
  let ?H = "header (wire_frame fl [a, b] p)"
  let ?h = "take 12 ?H" and ?o = "drop 12 ?H"
  have H: "?H = ?h @ ?o" by simp
  have lh: "length ?h = 12" by (simp add: wire2_facts)
  have hl: "ReadHL ?h = 5"
    using header_prefix(1) [of ?h ?o] lh wire2_facts(2) [of fl a b p] by simp
  have lo: "length ?o = (if ReadHL ?h > 3 then unat (ReadHL ?h - 3) * WORD else 0)"
    by (simp add: hl wire2_facts WORD_def)
  have "pending rd = ?h @ ?o @ (p @ rest)"
    using rd by (simp add: wire_def wire2_facts)
  then have "ReceiveFrame rd fr
      = receive_checked None (rd\<lparr>pending := p @ rest\<rparr>) (fr\<lparr>header := ?h @ ?o\<rparr>)"
    using ReceiveFrame_header_options [OF fr lh wire2_facts(8) lo] by simp
  also have "\<dots> = (None, (fr\<lparr>header := ?H\<rparr>)\<lparr>payload := (if p = [] then payload fr else p)\<rparr>,
                     rd\<lparr>pending := rest\<rparr>)"
    using receive_checked_payload [of "fr\<lparr>header := ?H\<rparr>" p "rd\<lparr>pending := p @ rest\<rparr>" rest None] p
    by (simp add: wire2_facts)
  finally show ?thesis by simp
qed

lemma receive_checked_partial:
  assumes "VerifyCRC (header fr)" and "pending rd \<noteq> []"
    and "length (pending rd) < unat (ReadPayloadLen (header fr))" and "\<not> broken rd"
  shows "receive_checked err rd fr = (Some (E op_receive None ErrUnexpectedEOF), fr, rd\<lparr>pending := []\<rparr>)"
proof -
  have "ReadPayloadLen (header fr) \<noteq> 0"
    using assms(3) by (metis not_less_zero unat_0)
  moreover have "ReadFull rd (unat (ReadPayloadLen (header fr)))
                   = (pending rd, Some ErrUnexpectedEOF, rd\<lparr>pending := []\<rparr>)"
    using assms(2,3,4) by (simp add: ReadFull_def)
  ultimately show ?thesis
    using assms(1) by (simp add: receive_checked_def receive_payload_def Let_def)
qed

section \<open>Receiving: end of stream, foreign output, CRC failure\<close>

text \<open>
  C3. The claim: when header and options are read, the CRC verifies and the stream ends
  before the payload arrives, the receive fails with an end-of-file error. The code's
  end-of-file branch returns the variable \<^verbatim>\<open>err\<close>, which is \<^verbatim>\<open>nil\<close> there, not
  \<^verbatim>\<open>err2\<close>. On a stream that holds a valid header announcing 5 payload bytes (HL = 3,
  version 1, flags JSON) and then ends, \<open>ReceiveFrame\<close> returns \<^verbatim>\<open>nil\<close>, with a frame
  whose payload is empty. (When the stream ends after some but not all payload bytes the
  receive does fail, with the wrapped \<open>ErrUnexpectedEOF\<close>: \<open>receive_checked_partial\<close>.)
\<close>

theorem C3_eof_before_payload_returns_nil:
  "ReceiveFrame
     \<lparr>pending = [0x31, 0x02, 0, 0, 5, 0, 0, 0] @ u32_bytes (ChecksumIEEE [0x31, 0x02, 0, 0, 5, 0, 0, 0]),
      broken = False, deadliner = None, deadline = None\<rparr>
     NewFrame
   = (None,
      \<lparr>header = [0x31, 0x02, 0, 0, 5, 0, 0, 0] @ u32_bytes (ChecksumIEEE [0x31, 0x02, 0, 0, 5, 0, 0, 0]),
       payload = []\<rparr>,
      \<lparr>pending = [], broken = False, deadliner = None, deadline = None\<rparr>)"
proof -
  let ?h8 = "[0x31, 0x02, 0, 0, 5, 0, 0, 0] :: bytes"
  let ?h = "?h8 @ u32_bytes (ChecksumIEEE ?h8)"
  let ?rd = "\<lparr>pending = ?h, broken = False, deadliner = None, deadline = None\<rparr>"
  have hl: "ReadHL ?h = 3" by (simp add: ReadHL_def)
  have crc: "VerifyCRC ?h" using VerifyCRC_sealed [of ?h8 "[]"] by simp
  have pl: "ReadPayloadLen ?h = 5" by (simp add: ReadPayloadLen_def u32_at_def)
  have ne: "?h \<noteq> res" by (simp add: res_def bytes_of_def)
  have "ReceiveFrame ?rd NewFrame
          = receive_checked None (?rd\<lparr>pending := []\<rparr>) (NewFrame\<lparr>header := ?h @ []\<rparr>)"
    by (rule ReceiveFrame_header_options [where rest = "[]"]) (use ne hl in \<open>simp_all add: NewFrame_def\<close>)
  also have "\<dots> = (None, NewFrame\<lparr>header := ?h @ []\<rparr>, ?rd\<lparr>pending := []\<rparr>)"
    by (rule receive_checked_eof) (use crc pl in simp_all)
  finally show ?thesis by (simp add: NewFrame_def)
qed

lemma length_res: "length res = 12"
  by (simp add: res_def bytes_of_def)

lemma ReadFull_short:
  "length (pending rd) < n \<Longrightarrow>
   \<exists>d e rd'. ReadFull rd n = (d, Some e, rd') \<and> e \<in> {EOF, ErrUnexpectedEOF, ErrStream}"
  by (simp add: ReadFull_def)

lemma receive_checked_kind:
  "fst (receive_checked None rd fr) \<noteq> Some (E op (Some k) e)"
  by (auto simp add: receive_checked_def receive_crc_failed_def receive_payload_def
        SetReadDeadline_def ReadAll_def ReadFull_def Let_def
      split: if_splits option.splits prod.splits)

lemma receive_foreign_eq:
  "receive_foreign rd fr =
     (Some (E op_receive (Some FileNotFound)
        (Str (if \<not> broken rd \<and> pending rd \<noteq> [] then header fr @ pending rd
              else bytes_of ''file not found''))),
      fr, rd\<lparr>pending := []\<rparr>)"
  by (simp add: receive_foreign_def ReadAll_def)

lemma ReceiveFrame_sentinel:
  assumes fr: "length (header fr) = 12" and rd: "take 12 (pending rd) = res"
  shows "ReceiveFrame rd fr =
     (Some (E op_receive (Some FileNotFound)
        (Str (if \<not> broken rd \<and> drop 12 (pending rd) \<noteq> [] then res @ drop 12 (pending rd)
              else bytes_of ''file not found''))),
      fr\<lparr>header := res\<rparr>, rd\<lparr>pending := []\<rparr>)"
proof -
  have "12 \<le> length (pending rd)"
    using rd length_res by (metis length_take min.cobounded1)
  then have "ReadFull rd 12 = (res, None, rd\<lparr>pending := drop 12 (pending rd)\<rparr>)"
    using rd by (simp add: ReadFull_enough)
  then show ?thesis
    using fr by (simp add: ReceiveFrame_def fill_full length_res receive_foreign_eq)
qed

lemma ReceiveFrame_no_sentinel:
  assumes fr: "length (header fr) = 12" and rd: "take 12 (pending rd) \<noteq> res"
  shows "fst (ReceiveFrame rd fr) \<noteq> Some (E op (Some k) e)"
proof (cases "12 \<le> length (pending rd)")
  case True
  then have r: "ReadFull rd 12 = (take 12 (pending rd), None, rd\<lparr>pending := drop 12 (pending rd)\<rparr>)"
    by (simp add: ReadFull_enough)
  have f: "fill (header fr) (take 12 (pending rd)) = take 12 (pending rd)"
    using True fr by (simp add: fill_full)
  show ?thesis
    using fr rd r f receive_checked_kind
    by (auto simp add: ReceiveFrame_def Let_def split: prod.splits option.splits)
next
  case False
  then obtain d e rd' where "ReadFull rd 12 = (d, Some e, rd')" "e \<in> {EOF, ErrUnexpectedEOF, ErrStream}"
    using ReadFull_short [of rd 12] by auto
  then show ?thesis
    using fr by (auto simp add: ReceiveFrame_def)
qed

text \<open>
  C6, as amended. A receive into a frame with a 12-byte header reports a
  \<open>FileNotFound\<close> error exactly when the first 12 bytes of the stream are the sentinel
  \<^verbatim>\<open>Could not op\<close>; what follows the header, payload included, plays no part. The rest
  of the stream is then read, and the message is the sentinel followed by the bytes
  drained when the drain succeeds and yields at least one byte, and the fixed text
  \<^verbatim>\<open>file not found\<close> otherwise.
\<close>

theorem C6_foreign_output:
  assumes "length (header fr) = 12"
  shows "((\<exists>e. fst (ReceiveFrame rd fr) = Some (E op_receive (Some FileNotFound) e))
            \<longleftrightarrow> take 12 (pending rd) = res)
       \<and> (take 12 (pending rd) = res \<longrightarrow>
            ReceiveFrame rd fr =
              (Some (E op_receive (Some FileNotFound)
                 (Str (if \<not> broken rd \<and> drop 12 (pending rd) \<noteq> []
                       then res @ drop 12 (pending rd)
                       else bytes_of ''file not found''))),
               fr\<lparr>header := res\<rparr>, rd\<lparr>pending := []\<rparr>))"
  using ReceiveFrame_sentinel [OF assms] ReceiveFrame_no_sentinel [OF assms]
  by (metis fst_conv)

text \<open>
  C6, as stated, fails on a stream that holds the sentinel and nothing else: the message
  is \<^verbatim>\<open>file not found\<close>, not the sentinel followed by the (no) drained bytes.
\<close>

theorem C6_counterexample:
  "ReceiveFrame \<lparr>pending = bytes_of ''Could not op'', broken = False, deadliner = None, deadline = None\<rparr>
      NewFrame
     = (Some (E op_receive (Some FileNotFound) (Str (bytes_of ''file not found''))),
        \<lparr>header = bytes_of ''Could not op'', payload = []\<rparr>,
        \<lparr>pending = [], broken = False, deadliner = None, deadline = None\<rparr>)
   \<and> bytes_of ''file not found'' \<noteq> bytes_of ''Could not op'' @ []"
proof -
  let ?rd = "\<lparr>pending = bytes_of ''Could not op'', broken = False, deadliner = None, deadline = None\<rparr>"
  have l: "length (header NewFrame) = 12" by (simp add: NewFrame_def)
  have t: "take 12 (pending ?rd) = res" by (simp add: res_def bytes_of_def)
  have d: "drop 12 (pending ?rd) = []" by (simp add: bytes_of_def)
  have "ReceiveFrame ?rd NewFrame
     = (Some (E op_receive (Some FileNotFound) (Str (bytes_of ''file not found''))),
        NewFrame\<lparr>header := res\<rparr>, ?rd\<lparr>pending := []\<rparr>)"
    using ReceiveFrame_sentinel [OF l t] d by simp
  moreover have "bytes_of ''file not found'' \<noteq> bytes_of ''Could not op'' @ []"
    by (simp add: bytes_of_def)
  ultimately show ?thesis
    by (simp add: NewFrame_def res_def)
qed

text \<open>
  The amended C6 at two streams: the interpreter's message \<^verbatim>\<open>Could not open input file: /x\<close>,
  and a well-formed frame whose payload is the sentinel.
\<close>

theorem C6_foreign_output_witness:
  "length (header NewFrame) = 12
   \<and> take 12 (pending \<lparr>pending = bytes_of ''Could not open input file: /x'', broken = False,
                        deadliner = None, deadline = None\<rparr>) = res
   \<and> ReceiveFrame \<lparr>pending = bytes_of ''Could not open input file: /x'', broken = False,
                    deadliner = None, deadline = None\<rparr> NewFrame
       = (Some (E op_receive (Some FileNotFound) (Str (bytes_of ''Could not open input file: /x''))),
          \<lparr>header = res, payload = []\<rparr>,
          \<lparr>pending = [], broken = False, deadliner = None, deadline = None\<rparr>)
   \<and> take 12 (pending \<lparr>pending = wire (wire_frame CodecRaw [1, 0] res), broken = False,
                        deadliner = None, deadline = None\<rparr>) \<noteq> res
   \<and> \<not> (\<exists>e. fst (ReceiveFrame \<lparr>pending = wire (wire_frame CodecRaw [1, 0] res), broken = False,
                        deadliner = None, deadline = None\<rparr> NewFrame)
             = Some (E op_receive (Some FileNotFound) e))"
proof -
  let ?rd1 = "\<lparr>pending = bytes_of ''Could not open input file: /x'', broken = False,
                        deadliner = None, deadline = None\<rparr>"
  let ?rd2 = "\<lparr>pending = wire (wire_frame CodecRaw [1, 0] res), broken = False,
                        deadliner = None, deadline = None\<rparr>"
  have l: "length (header NewFrame) = 12" by (simp add: NewFrame_def)
  have t1: "take 12 (pending ?rd1) = res" by (simp add: res_def bytes_of_def)
  have t2: "take 12 (pending ?rd2) \<noteq> res"
    using wire2_facts(8) [of CodecRaw 1 0 res] by (simp add: wire_def wire2_facts(1))
  have d: "drop 12 (bytes_of ''Could not open input file: /x'') \<noteq> []"
       "res @ drop 12 (bytes_of ''Could not open input file: /x'') = bytes_of ''Could not open input file: /x''"
    by (simp_all add: res_def bytes_of_def)
  show ?thesis
    using C6_foreign_output [OF l, of ?rd1] C6_foreign_output [OF l, of ?rd2] t1 t2 d l
    by (simp add: NewFrame_def)
qed

lemma receive_crc_failed_eq:
  "receive_crc_failed rd fr =
     (if deadliner rd = Some True
      then (Some (E op_receive None (Errorf_validation (header fr @ pending rd))), fr,
            rd\<lparr>pending := [], deadline := Some 2\<rparr>)
      else (Some (E op_receive None (Errorf_validation (header fr))), fr, rd))"
  by (cases "deadliner rd") (auto simp add: receive_crc_failed_def SetReadDeadline_def ReadAll_def)

text \<open>
  C7, as amended. When the header (12 bytes, not the sentinel) and its options are read
  and the header CRC does not verify, the receive fails with the validation error. If
  the stream has read deadlines and setting the 2-second deadline succeeds, the rest of
  the stream is drained and the message ends with the header (options included) followed
  by the drained bytes. If the stream has no read deadlines, or setting the deadline
  fails, nothing is drained and the message ends with the header bytes alone.
\<close>

theorem C7_crc_failure:
  assumes "length (header fr) = 12"
    and "length h = 12" and "h \<noteq> res"
    and "length opts = (if ReadHL h > 3 then unat (ReadHL h - 3) * WORD else 0)"
    and "pending rd = h @ opts @ rest"
    and "\<not> VerifyCRC h"
  shows "ReceiveFrame rd fr =
     (if deadliner rd = Some True
      then (Some (E op_receive None (Errorf_validation (h @ opts @ rest))),
            fr\<lparr>header := h @ opts\<rparr>, rd\<lparr>pending := [], deadline := Some 2\<rparr>)
      else (Some (E op_receive None (Errorf_validation (h @ opts))),
            fr\<lparr>header := h @ opts\<rparr>, rd\<lparr>pending := rest\<rparr>))"
proof -
  have "\<not> VerifyCRC (h @ opts)"
    using assms(2,6) header_prefix(2) [of h opts] by simp
  then have "receive_checked None (rd\<lparr>pending := rest\<rparr>) (fr\<lparr>header := h @ opts\<rparr>)
               = receive_crc_failed (rd\<lparr>pending := rest\<rparr>) (fr\<lparr>header := h @ opts\<rparr>)"
    by (simp add: receive_checked_def)
  then show ?thesis
    using ReceiveFrame_header_options [OF assms(1-5)]
    by (simp add: receive_crc_failed_eq)
qed

lemma bad_crc:
  "length h8 = 8 \<Longrightarrow> \<not> VerifyCRC (h8 @ u32_bytes (ChecksumIEEE h8 + 1) @ rest)"
  by (simp add: VerifyCRC_def u32_at_bytes)

text \<open>
  C7, as stated, fails on a stream that has the \<^verbatim>\<open>SetReadDeadline\<close> method when the call
  returns an error: no deadline is set, the bytes \<^verbatim>\<open>xyz\<close> that follow the header stay
  in the stream, and the message ends with the header alone. The header is that of a new
  frame with a CRC field one above the right value.
\<close>

theorem C7_counterexample:
  "ReceiveFrame
     \<lparr>pending = [0x31, 0, 0, 0, 0, 0, 0, 0] @ u32_bytes (ChecksumIEEE [0x31, 0, 0, 0, 0, 0, 0, 0] + 1)
                  @ bytes_of ''xyz'',
      broken = False, deadliner = Some False, deadline = None\<rparr>
     NewFrame
   = (Some (E op_receive None (Errorf_validation
        ([0x31, 0, 0, 0, 0, 0, 0, 0] @ u32_bytes (ChecksumIEEE [0x31, 0, 0, 0, 0, 0, 0, 0] + 1)))),
      \<lparr>header = [0x31, 0, 0, 0, 0, 0, 0, 0] @ u32_bytes (ChecksumIEEE [0x31, 0, 0, 0, 0, 0, 0, 0] + 1),
       payload = []\<rparr>,
      \<lparr>pending = bytes_of ''xyz'', broken = False, deadliner = Some False, deadline = None\<rparr>)
   \<and> Errorf_validation
        ([0x31, 0, 0, 0, 0, 0, 0, 0] @ u32_bytes (ChecksumIEEE [0x31, 0, 0, 0, 0, 0, 0, 0] + 1))
     \<noteq> Errorf_validation
        ([0x31, 0, 0, 0, 0, 0, 0, 0] @ u32_bytes (ChecksumIEEE [0x31, 0, 0, 0, 0, 0, 0, 0] + 1)
           @ bytes_of ''xyz'')"
proof -
  let ?h8 = "[0x31, 0, 0, 0, 0, 0, 0, 0] :: bytes"
  let ?h = "?h8 @ u32_bytes (ChecksumIEEE ?h8 + 1)"
  let ?rd = "\<lparr>pending = ?h @ bytes_of ''xyz'', broken = False, deadliner = Some False, deadline = None\<rparr>"
  have hl: "ReadHL ?h = 3" by (simp add: ReadHL_def)
  have crc: "\<not> VerifyCRC ?h" using bad_crc [of ?h8 "[]"] by simp
  have ne: "?h \<noteq> res" by (simp add: res_def bytes_of_def)
  have "ReceiveFrame ?rd NewFrame
          = receive_checked None (?rd\<lparr>pending := bytes_of ''xyz''\<rparr>) (NewFrame\<lparr>header := ?h @ []\<rparr>)"
    by (rule ReceiveFrame_header_options [where rest = "bytes_of ''xyz''"])
       (use ne hl in \<open>simp_all add: NewFrame_def\<close>)
  also have "\<dots> = receive_crc_failed (?rd\<lparr>pending := bytes_of ''xyz''\<rparr>) (NewFrame\<lparr>header := ?h @ []\<rparr>)"
    using crc by (simp add: receive_checked_def)
  finally have "ReceiveFrame ?rd NewFrame
     = (Some (E op_receive None (Errorf_validation ?h)), NewFrame\<lparr>header := ?h\<rparr>,
        ?rd\<lparr>pending := bytes_of ''xyz''\<rparr>)"
    by (simp add: receive_crc_failed_eq)
  moreover have "Errorf_validation ?h \<noteq> Errorf_validation (?h @ bytes_of ''xyz'')"
    by (simp add: Errorf_validation_def bytes_of_def)
  ultimately show ?thesis
    by (simp add: NewFrame_def)
qed

text \<open>
  The amended C7 at three streams with the same bad header followed by \<^verbatim>\<open>xyz\<close>: one
  whose deadline can be set, one without read deadlines, and one whose deadline cannot
  be set.
\<close>

theorem C7_crc_failure_witness:
  "length (header NewFrame) = 12
   \<and> \<not> VerifyCRC ([0x31, 0, 0, 0, 0, 0, 0, 0] @ u32_bytes (ChecksumIEEE [0x31, 0, 0, 0, 0, 0, 0, 0] + 1))
   \<and> ReceiveFrame
       \<lparr>pending = ([0x31, 0, 0, 0, 0, 0, 0, 0] @ u32_bytes (ChecksumIEEE [0x31, 0, 0, 0, 0, 0, 0, 0] + 1))
                    @ [] @ bytes_of ''xyz'',
        broken = False, deadliner = Some True, deadline = None\<rparr> NewFrame
     = (Some (E op_receive None (Errorf_validation
          (([0x31, 0, 0, 0, 0, 0, 0, 0] @ u32_bytes (ChecksumIEEE [0x31, 0, 0, 0, 0, 0, 0, 0] + 1))
             @ [] @ bytes_of ''xyz''))),
        \<lparr>header = [0x31, 0, 0, 0, 0, 0, 0, 0] @ u32_bytes (ChecksumIEEE [0x31, 0, 0, 0, 0, 0, 0, 0] + 1),
         payload = []\<rparr>,
        \<lparr>pending = [], broken = False, deadliner = Some True, deadline = Some 2\<rparr>)
   \<and> ReceiveFrame
       \<lparr>pending = ([0x31, 0, 0, 0, 0, 0, 0, 0] @ u32_bytes (ChecksumIEEE [0x31, 0, 0, 0, 0, 0, 0, 0] + 1))
                    @ [] @ bytes_of ''xyz'',
        broken = False, deadliner = None, deadline = None\<rparr> NewFrame
     = (Some (E op_receive None (Errorf_validation
          ([0x31, 0, 0, 0, 0, 0, 0, 0] @ u32_bytes (ChecksumIEEE [0x31, 0, 0, 0, 0, 0, 0, 0] + 1)))),
        \<lparr>header = [0x31, 0, 0, 0, 0, 0, 0, 0] @ u32_bytes (ChecksumIEEE [0x31, 0, 0, 0, 0, 0, 0, 0] + 1),
         payload = []\<rparr>,
        \<lparr>pending = bytes_of ''xyz'', broken = False, deadliner = None, deadline = None\<rparr>)
   \<and> ReceiveFrame
       \<lparr>pending = ([0x31, 0, 0, 0, 0, 0, 0, 0] @ u32_bytes (ChecksumIEEE [0x31, 0, 0, 0, 0, 0, 0, 0] + 1))
                    @ [] @ bytes_of ''xyz'',
        broken = False, deadliner = Some False, deadline = None\<rparr> NewFrame
     = (Some (E op_receive None (Errorf_validation
          ([0x31, 0, 0, 0, 0, 0, 0, 0] @ u32_bytes (ChecksumIEEE [0x31, 0, 0, 0, 0, 0, 0, 0] + 1)))),
        \<lparr>header = [0x31, 0, 0, 0, 0, 0, 0, 0] @ u32_bytes (ChecksumIEEE [0x31, 0, 0, 0, 0, 0, 0, 0] + 1),
         payload = []\<rparr>,
        \<lparr>pending = bytes_of ''xyz'', broken = False, deadliner = Some False, deadline = None\<rparr>)"
proof -
  let ?h8 = "[0x31, 0, 0, 0, 0, 0, 0, 0] :: bytes"
  let ?h = "?h8 @ u32_bytes (ChecksumIEEE ?h8 + 1)"
  have l: "length (header NewFrame) = 12" by (simp add: NewFrame_def)
  have lh: "length ?h = 12" by simp
  have ne: "?h \<noteq> res" by (simp add: res_def bytes_of_def)
  have lo: "length ([] :: bytes) = (if ReadHL ?h > 3 then unat (ReadHL ?h - 3) * WORD else 0)"
    by (simp add: ReadHL_def)
  have crc: "\<not> VerifyCRC ?h" using bad_crc [of ?h8 "[]"] by simp
  note th = C7_crc_failure [OF l lh ne lo _ crc, where rest = "bytes_of ''xyz''"]
  have a: "pending \<lparr>pending = ?h @ [] @ bytes_of ''xyz'', broken = False, deadliner = d, deadline = None\<rparr>
             = ?h @ [] @ bytes_of ''xyz''" for d
    by simp
  show ?thesis
    using th [OF a [of "Some True"]] th [OF a [of None]] th [OF a [of "Some False"]] l crc
    by (simp add: NewFrame_def)
qed

section \<open>Facts about the codec\<close>

lemma storeCodec_remembered:
  "storeCodec c r flag =
     (None, c\<lparr>codec := (codec c)(Seq r \<mapsto> remembered flag),
              calls := calls c @ [CallStore (Seq r) (remembered flag)]\<rparr>)"
  by (simp add: storeCodec_def remembered_def Store_def)


lemma getFrame_reset:
  "pool_reset c \<Longrightarrow> fst (getFrame c) = NewFrame \<and> pool_reset (snd (getFrame c))"
  by (cases "fPool c") (simp_all add: getFrame_def pool_reset_def)

lemma getFrame_fields:
  "relay (snd (getFrame c)) = relay c" "codec (snd (getFrame c)) = codec c"
  "frame (snd (getFrame c)) = frame c" "calls (snd (getFrame c)) = calls c"
  by (cases "fPool c"; simp add: getFrame_def)+


lemma written_error_frame:
  "WriteCRC (WritePayload (WritePayloadLen
      (WriteFlags (WriteFlags (WriteVersion (WriteOptions NewFrame [a, b]) Version1) k) ERROR)
      (of_nat (length p))) p)
   = wire_frame ERROR [a, b] p"
  by (simp add: WriteCRC_def WritePayload_def WritePayloadLen_def WriteFlags_def WriteVersion_def
        NewFrame_def incrementHL_def ReadHL_def Version1_def wire_frame_def Let_def)


lemma handleError_wire:
  "handleError c r (WriteFlags (WriteVersion (WriteOptions NewFrame [a, b]) Version1) k) e =
     (Some (E op_handle None (Str (Error r))),
      c\<lparr>relay := snd (Send (relay c) (wire_frame ERROR [a, b] (ServiceMethod r @ e)))\<rparr>)"
proof -
  have "(if e \<noteq> [] then ServiceMethod r @ e else ServiceMethod r) = ServiceMethod r @ e"
    by simp
  then show ?thesis
    using written_error_frame [of a b k "ServiceMethod r @ e"]
    by (simp add: handleError_def Let_def)
qed

lemma codec_after_write:
  "codec (snd (handleError c r fr e)) = codec c"
  "codec (snd (send_payload c r fr d)) = codec c"
  "codec (snd (returned p)) = codec (snd p)"
  "codec (putFrame c f) = codec c"
  by (simp_all add: handleError_def send_payload_def returned_def putFrame_def Let_def
        split: prod.splits)

lemma codec_write_body: "codec (snd (write_body L c r fr k body)) = codec c"
  unfolding write_body_def
  by (cases body; cases "json_Marshal L body"; cases "msgpack_Marshal L body"; cases "gob_Encode L body")
     (auto simp add: codec_after_write split: sum.splits)

lemma WriteResponse_unfold:
  assumes "getFrame c = (fr0, c1)"
  shows "WriteResponse L c r body =
     (let c2 = c1\<lparr>codec := (codec c1)(Seq r := None),
                  calls := calls c1 @ [CallLoadAndDelete (Seq r)]\<rparr>;
          fr3 = WriteFlags (WriteVersion
                  (WriteOptions fr0 [ucast (Seq r), of_nat (length (ServiceMethod r))]) Version1)
                  (case codec c1 (Seq r) of None \<Rightarrow> CodecGob | Some k \<Rightarrow> k);
          out = (if Error r \<noteq> [] then returned (handleError c2 r fr3 (Error r))
                 else case codec c1 (Seq r) of
                        None \<Rightarrow> (Panic ''interface conversion: interface {} is nil, not uint8'', c2)
                      | Some k \<Rightarrow> write_body L c2 r fr3 k body)
      in (fst out, putFrame (snd out) fr3))"
  using assms
  by (cases "codec c1 (Seq r)")
     (simp_all add: WriteResponse_def LoadAndDelete_def Let_def split: prod.splits)

lemma codec_WriteResponse:
  "codec (snd (WriteResponse L c r body)) = (codec c)(Seq r := None)"
proof -
  obtain fr0 c1 where g: "getFrame c = (fr0, c1)" by (cases "getFrame c")
  then have "codec c1 = codec c" using getFrame_fields(2) [of c] by simp
  then show ?thesis
    unfolding WriteResponse_unfold [OF g]
    by (cases "codec c (Seq r)")
       (simp_all add: Let_def codec_after_write codec_write_body)
qed

lemma calls_after_write:
  "calls (snd (handleError c r fr e)) = calls c"
  "calls (snd (send_payload c r fr d)) = calls c"
  "calls (snd (returned p)) = calls (snd p)"
  "calls (putFrame c f) = calls c"
  by (simp_all add: handleError_def send_payload_def returned_def putFrame_def Let_def
        split: prod.splits)

lemma calls_write_body: "calls (snd (write_body L c r fr k body)) = calls c"
  unfolding write_body_def
  by (cases body; cases "json_Marshal L body"; cases "msgpack_Marshal L body"; cases "gob_Encode L body")
     (auto simp add: calls_after_write split: sum.splits)

lemma calls_WriteResponse:
  "calls (snd (WriteResponse L c r body)) = calls c @ [CallLoadAndDelete (Seq r)]"
proof -
  obtain fr0 c1 where g: "getFrame c = (fr0, c1)" by (cases "getFrame c")
  then have "calls c1 = calls c" using getFrame_fields(4) [of c] by simp
  then show ?thesis
    unfolding WriteResponse_unfold [OF g]
    by (cases "codec c1 (Seq r)")
       (simp_all add: Let_def calls_after_write calls_write_body)
qed

lemma ReadRequestHeader_failed:
  assumes "getFrame c = (f0, c1)" "Receive (relay c1) f0 = (Some e, f, rl)"
  shows "ReadRequestHeader c r = (Returned (Some e), r, putFrame (c1\<lparr>relay := rl\<rparr>) f)"
  using assms by (simp add: ReadRequestHeader_def)

lemma ReadRequestHeader_received:
  assumes "getFrame c = (f0, c1)" "Receive (relay c1) f0 = (None, f, rl)"
  shows "ReadRequestHeader c r =
     (let opts = ReadOptions (header f) in
      if length opts \<noteq> 2 then
        (Returned (Some (E op_header None (Str two_options))), r, putFrame (c1\<lparr>relay := rl\<rparr>) f)
      else if length (payload f) < unat (opts ! 1) then
        (Panic ''slice bounds out of range'', r\<lparr>Seq := ucast (opts ! 0)\<rparr>, c1\<lparr>relay := rl\<rparr>)
      else
        (Returned None,
         r\<lparr>Seq := ucast (opts ! 0), ServiceMethod := take (unat (opts ! 1)) (payload f)\<rparr>,
         c1\<lparr>relay := rl, frame := Some f,
            codec := (codec c1)(ucast (opts ! 0) \<mapsto> remembered (ReadFlags f)),
            calls := calls c1 @ [CallStore (ucast (opts ! 0)) (remembered (ReadFlags f))]\<rparr>))"
  using assms by (simp add: ReadRequestHeader_def Let_def storeCodec_remembered)

lemma getFrame_NewCodec: "getFrame ((NewCodec rl)\<lparr>codec := m\<rparr>) = (NewFrame, (NewCodec rl)\<lparr>codec := m\<rparr>)"
  by (simp add: getFrame_def NewCodec_def)

lemma ReadRequestHeader_ok:
  assumes "ReadRequestHeader c r = (Returned None, r', c')"
  shows "\<exists>f. frame c' = Some f \<and> codec c' (Seq r') = Some (remembered (ReadFlags f))
             \<and> fPool c' = fPool (snd (getFrame c))
             \<and> calls c' = calls c @ [CallStore (Seq r') (remembered (ReadFlags f))]"
proof -
  obtain f0 c1 where g: "getFrame c = (f0, c1)" by (cases "getFrame c")
  obtain err f rl where rc: "Receive (relay c1) f0 = (err, f, rl)"
    by (cases "Receive (relay c1) f0")
  show ?thesis
  proof (cases err)
    case None
    then show ?thesis
      using assms ReadRequestHeader_received [OF g, of f rl r] rc g getFrame_fields(4) [of c]
      by (auto simp add: Let_def split: if_splits)
  next
    case (Some e)
    then show ?thesis
      using assms ReadRequestHeader_failed [OF g, of e f rl r] rc by simp
  qed
qed

lemma ReadRequestHeader_wire2:
  assumes "pool_reset c"
    and "pending (rwc (relay c)) = wire (wire_frame fl [a, b] p) @ rest"
    and "length p < 2 ^ 32"
  shows "ReadRequestHeader c r =
     (if length p < unat b then
        (Panic ''slice bounds out of range'', r\<lparr>Seq := ucast a\<rparr>,
         c\<lparr>relay := (relay c)\<lparr>rwc := (rwc (relay c))\<lparr>pending := rest\<rparr>\<rparr>, fPool := tl (fPool c)\<rparr>)
      else
        (Returned None, r\<lparr>Seq := ucast a, ServiceMethod := take (unat b) p\<rparr>,
         c\<lparr>relay := (relay c)\<lparr>rwc := (rwc (relay c))\<lparr>pending := rest\<rparr>\<rparr>,
           frame := Some (wire_frame fl [a, b] p),
           codec := (codec c)(ucast a \<mapsto> remembered fl), fPool := tl (fPool c),
           calls := calls c @ [CallStore (ucast a) (remembered fl)]\<rparr>))"
proof -
  obtain f0 c1 where g: "getFrame c = (f0, c1)" by (cases "getFrame c")
  have f0: "f0 = NewFrame" using getFrame_reset [OF assms(1)] g by simp
  have c1: "c1 = c\<lparr>fPool := tl (fPool c)\<rparr>"
    using g by (cases "fPool c") (auto simp add: getFrame_def)
  have "ReceiveFrame (rwc (relay c1)) f0
          = (None, \<lparr>header = header (wire_frame fl [a, b] p), payload = (if p = [] then payload f0 else p)\<rparr>,
             (rwc (relay c1))\<lparr>pending := rest\<rparr>)"
    by (rule ReceiveFrame_wire2) (use assms c1 f0 in \<open>simp_all add: NewFrame_def\<close>)
  moreover have "\<lparr>header = header (wire_frame fl [a, b] p), payload = (if p = [] then payload f0 else p)\<rparr>
                   = wire_frame fl [a, b] p"
    using f0 by (simp add: wire_frame_def Let_def NewFrame_def)
  ultimately have rc: "Receive (relay c1) f0
      = (None, wire_frame fl [a, b] p, (relay c1)\<lparr>rwc := (rwc (relay c1))\<lparr>pending := rest\<rparr>\<rparr>)"
    by (simp add: Receive_def)
  show ?thesis
    unfolding ReadRequestHeader_received [OF g rc]
    by (simp add: wire2_facts c1)
qed

lemma Receive_wire2:
  assumes "pending (rwc rl) = wire (wire_frame fl [a, b] p) @ rest" and "length p < 2 ^ 32"
  shows "Receive rl NewFrame = (None, wire_frame fl [a, b] p, rl\<lparr>rwc := (rwc rl)\<lparr>pending := rest\<rparr>\<rparr>)"
proof -
  have "ReceiveFrame (rwc rl) NewFrame
          = (None, \<lparr>header = header (wire_frame fl [a, b] p),
                    payload = (if p = [] then payload NewFrame else p)\<rparr>,
             (rwc rl)\<lparr>pending := rest\<rparr>)"
    by (rule ReceiveFrame_wire2) (use assms in \<open>simp_all add: NewFrame_def\<close>)
  moreover have "\<lparr>header = header (wire_frame fl [a, b] p),
                   payload = (if p = [] then payload NewFrame else p)\<rparr> = wire_frame fl [a, b] p"
    by (simp add: wire_frame_def Let_def NewFrame_def)
  ultimately show ?thesis
    by (simp add: Receive_def)
qed

lemma Receive_no_options:
  assumes "pending (rwc rl) = [0x31, fl, 0, 0, 0, 0, 0, 0] @ u32_bytes (ChecksumIEEE [0x31, fl, 0, 0, 0, 0, 0, 0])"
  shows "Receive rl NewFrame =
           (None, \<lparr>header = [0x31, fl, 0, 0, 0, 0, 0, 0] @ u32_bytes (ChecksumIEEE [0x31, fl, 0, 0, 0, 0, 0, 0]),
                   payload = []\<rparr>,
            rl\<lparr>rwc := (rwc rl)\<lparr>pending := []\<rparr>\<rparr>)"
proof -
  let ?h8 = "[0x31, fl, 0, 0, 0, 0, 0, 0] :: bytes"
  let ?h = "?h8 @ u32_bytes (ChecksumIEEE ?h8)"
  have hl: "ReadHL ?h = 3" by (simp add: ReadHL_def)
  have crc: "VerifyCRC ?h" using VerifyCRC_sealed [of ?h8 "[]"] by simp
  have pl: "ReadPayloadLen ?h = 0" by (simp add: ReadPayloadLen_def u32_at_def)
  have ne: "?h \<noteq> res" by (simp add: res_def bytes_of_def)
  have "ReceiveFrame (rwc rl) NewFrame
          = receive_checked None ((rwc rl)\<lparr>pending := []\<rparr>) (NewFrame\<lparr>header := ?h @ []\<rparr>)"
    by (rule ReceiveFrame_header_options [where rest = "[]"])
       (use ne hl assms in \<open>simp_all add: NewFrame_def\<close>)
  also have "\<dots> = (None, (NewFrame\<lparr>header := ?h @ []\<rparr>)\<lparr>payload := (if ([]::bytes) = [] then payload (NewFrame\<lparr>header := ?h @ []\<rparr>) else [])\<rparr>,
                     ((rwc rl)\<lparr>pending := []\<rparr>)\<lparr>pending := []\<rparr>)"
    by (rule receive_checked_payload) (use crc pl in simp_all)
  finally show ?thesis
    by (simp add: Receive_def NewFrame_def)
qed




section \<open>Writing a response: absent entries and marshalling failures\<close>

text \<open>
  C1. The claim: a response without error for a sequence number that has no entry in the
  codec table is gob-encoded and sent, and the call returns. The code writes the
  fallback flag into the frame, but the switch then asserts the loaded value, which is
  \<^verbatim>\<open>nil\<close>, to be a byte. On a new codec, whose table is empty, \<open>WriteResponse\<close> panics
  for every response without error; nothing is sent, the frame goes back to the pool.
\<close>

theorem C1_absent_entry_panics:
  "WriteResponse L (NewCodec rl) \<lparr>ServiceMethod = m, Seq = s, Error = []\<rparr> body
     = (Panic ''interface conversion: interface {} is nil, not uint8'',
        \<lparr>relay = rl, frame = None, codec = Map.empty, fPool = [NewFrame],
          calls = [CallLoadAndDelete s]\<rparr>)"
proof -
  have g: "getFrame (NewCodec rl) = (NewFrame, NewCodec rl)"
    by (simp add: getFrame_def NewCodec_def)
  show ?thesis
    unfolding WriteResponse_unfold [OF g]
    by (simp add: NewCodec_def putFrame_def Reset_def)
qed

text \<open>
  C2. The claim: when serializing the body fails, under each of the five codecs, the
  error is sent to the peer in an \<open>ERROR\<close> frame and returned. With \<open>MSGPACK\<close> or \<open>GOB\<close>
  remembered for the sequence number and a marshaller that fails with message \<open>e\<close>,
  \<open>WriteResponse\<close> returns the error and sends nothing: the relay is as before.
\<close>

theorem C2_msgpack_gob_errors_not_sent:
  "WriteResponse (L\<lparr>msgpack_Marshal := \<lambda>b. Inl e\<rparr>) ((NewCodec rl)\<lparr>codec := [s \<mapsto> CodecMsgpack]\<rparr>)
       \<lparr>ServiceMethod = m, Seq = s, Error = []\<rparr> body
     = (Returned (Some (E op_write None (ErrLib e))),
        \<lparr>relay = rl, frame = None, codec = Map.empty, fPool = [NewFrame],
          calls = [CallLoadAndDelete s]\<rparr>)
   \<and> WriteResponse (L\<lparr>gob_Encode := \<lambda>b. Inl e\<rparr>) ((NewCodec rl)\<lparr>codec := [s \<mapsto> CodecGob]\<rparr>)
       \<lparr>ServiceMethod = m, Seq = s, Error = []\<rparr> body
     = (Returned (Some (E op_write None (ErrLib e))),
        \<lparr>relay = rl, frame = None, codec = Map.empty, fPool = [NewFrame],
          calls = [CallLoadAndDelete s]\<rparr>)"
proof -
  have g: "getFrame ((NewCodec rl)\<lparr>codec := [s \<mapsto> k]\<rparr>) = (NewFrame, (NewCodec rl)\<lparr>codec := [s \<mapsto> k]\<rparr>)" for k
    by (rule getFrame_NewCodec)
  show ?thesis
    unfolding WriteResponse_unfold [OF g]
    by (simp add: write_body_def NewCodec_def putFrame_def Reset_def
          CodecMsgpack_def CodecGob_def CodecProto_def CodecRaw_def CodecJSON_def)
qed

text \<open>The sibling branch: with \<open>JSON\<close> remembered, the marshalling error goes to the peer
  in an \<open>ERROR\<close> frame whose payload is the method name followed by the error's message.
  The error returned is built from \<^verbatim>\<open>r.Error\<close>, which is empty here.\<close>

lemma WriteResponse_json_error_sent:
  "WriteResponse (L\<lparr>json_Marshal := \<lambda>b. Inl e\<rparr>) ((NewCodec rl)\<lparr>codec := [s \<mapsto> CodecJSON]\<rparr>)
       \<lparr>ServiceMethod = m, Seq = s, Error = []\<rparr> body
     = (Returned (Some (E op_handle None (Str []))),
        \<lparr>relay = snd (Send rl (wire_frame ERROR [ucast s, of_nat (length m)] (m @ e))),
         frame = None, codec = Map.empty, fPool = [NewFrame], calls = [CallLoadAndDelete s]\<rparr>)"
proof -
  have g: "getFrame ((NewCodec rl)\<lparr>codec := [s \<mapsto> k]\<rparr>) = (NewFrame, (NewCodec rl)\<lparr>codec := [s \<mapsto> k]\<rparr>)" for k
    by (rule getFrame_NewCodec)
  show ?thesis
    unfolding WriteResponse_unfold [OF g]
    by (simp add: write_body_def handleError_wire returned_def
          NewCodec_def putFrame_def Reset_def
          CodecProto_def CodecRaw_def CodecJSON_def del: WriteOptions.simps)
qed

section \<open>The per-request codec table\<close>

text \<open>
  C4. After a successful \<open>ReadRequestHeader\<close>, which stores an entry for the sequence
  number it read (one \<^verbatim>\<open>Store\<close> on the map), a \<open>WriteResponse\<close> for that sequence
  number leaves the codec table without an entry for it, whatever the response and the
  body are and however the call ends: the table afterwards is the table before without
  that key. The removal is one \<^verbatim>\<open>LoadAndDelete\<close> call on the map and nothing else: the
  calls \<open>WriteResponse\<close> makes on the map are that single call, not a load and a
  separate delete.
\<close>

theorem C4_entry_removed:
  assumes "ReadRequestHeader c r = (Returned None, r', c')" and "Seq resp = Seq r'"
  shows "codec c' (Seq r') \<noteq> None
       \<and> (\<exists>k. calls c' = calls c @ [CallStore (Seq r') k] \<and> codec c' (Seq r') = Some k)
       \<and> codec (snd (WriteResponse L c' resp body)) (Seq r') = None
       \<and> codec (snd (WriteResponse L c' resp body)) = (codec c')(Seq resp := None)
       \<and> calls (snd (WriteResponse L c' resp body)) = calls c' @ [CallLoadAndDelete (Seq resp)]"
  using ReadRequestHeader_ok [OF assms(1)] assms(2)
  by (auto simp add: codec_WriteResponse calls_WriteResponse)

text \<open>C4 on a new codec whose stream holds one JSON request, sequence number 42, method
  \<^verbatim>\<open>Svc.Ping\<close>, body \<^verbatim>\<open>{}\<close>.\<close>

theorem C4_entry_removed_witness:
  "ReadRequestHeader
     (NewCodec \<lparr>rwc = \<lparr>pending = wire (wire_frame CodecJSON [42, 8] (bytes_of ''Svc.Ping{}'')),
                       broken = False, deadliner = None, deadline = None\<rparr>,
                sent = [], write_fails = False\<rparr>)
     \<lparr>ServiceMethod = [], Seq = 0\<rparr>
   = (Returned None, \<lparr>ServiceMethod = bytes_of ''Svc.Ping'', Seq = 42\<rparr>,
      \<lparr>relay = \<lparr>rwc = \<lparr>pending = [], broken = False, deadliner = None, deadline = None\<rparr>,
                 sent = [], write_fails = False\<rparr>,
       frame = Some (wire_frame CodecJSON [42, 8] (bytes_of ''Svc.Ping{}'')),
       codec = [42 \<mapsto> CodecJSON], fPool = [], calls = [CallStore 42 CodecJSON]\<rparr>)
   \<and> Seq \<lparr>ServiceMethod = bytes_of ''Svc.Ping'', Seq = 42, Error = []\<rparr>
       = Seq \<lparr>ServiceMethod = bytes_of ''Svc.Ping'', Seq = 42\<rparr>
   \<and> [42 \<mapsto> CodecJSON] (42 :: 64 word) \<noteq> None
   \<and> (\<forall>(L :: 'v codecs) body. calls (snd (WriteResponse L
          \<lparr>relay = \<lparr>rwc = \<lparr>pending = [], broken = False, deadliner = None, deadline = None\<rparr>,
                     sent = [], write_fails = False\<rparr>,
           frame = Some (wire_frame CodecJSON [42, 8] (bytes_of ''Svc.Ping{}'')),
           codec = [42 \<mapsto> CodecJSON], fPool = [], calls = [CallStore 42 CodecJSON]\<rparr>
          \<lparr>ServiceMethod = bytes_of ''Svc.Ping'', Seq = 42, Error = []\<rparr> body))
        = [CallStore 42 CodecJSON, CallLoadAndDelete 42])
   \<and> (\<forall>(L :: 'v codecs) body. codec (snd (WriteResponse L
          \<lparr>relay = \<lparr>rwc = \<lparr>pending = [], broken = False, deadliner = None, deadline = None\<rparr>,
                     sent = [], write_fails = False\<rparr>,
           frame = Some (wire_frame CodecJSON [42, 8] (bytes_of ''Svc.Ping{}'')),
           codec = [42 \<mapsto> CodecJSON], fPool = [], calls = [CallStore 42 CodecJSON]\<rparr>
          \<lparr>ServiceMethod = bytes_of ''Svc.Ping'', Seq = 42, Error = []\<rparr> body)) 42 = None)"
proof -
  let ?c0 = "NewCodec \<lparr>rwc = \<lparr>pending = wire (wire_frame CodecJSON [42, 8] (bytes_of ''Svc.Ping{}'')),
                       broken = False, deadliner = None, deadline = None\<rparr>,
                sent = [], write_fails = False\<rparr>"
  let ?r1 = "\<lparr>ServiceMethod = bytes_of ''Svc.Ping'', Seq = 42\<rparr>"
  let ?c1 = "\<lparr>relay = \<lparr>rwc = \<lparr>pending = [], broken = False, deadliner = None, deadline = None\<rparr>,
                     sent = [], write_fails = False\<rparr>,
           frame = Some (wire_frame CodecJSON [42, 8] (bytes_of ''Svc.Ping{}'')),
           codec = [42 \<mapsto> CodecJSON], fPool = [], calls = [CallStore 42 CodecJSON]\<rparr>"
  let ?resp = "\<lparr>ServiceMethod = bytes_of ''Svc.Ping'', Seq = 42, Error = []\<rparr>"
  have rd: "ReadRequestHeader ?c0 \<lparr>ServiceMethod = [], Seq = 0\<rparr> = (Returned None, ?r1, ?c1)"
    by (subst ReadRequestHeader_wire2 [where fl = CodecJSON and a = 42 and b = 8
          and p = "bytes_of ''Svc.Ping{}''" and rest = "[]"])
       (simp_all add: NewCodec_def pool_reset_def bytes_of_def remembered_def
          CodecJSON_def CodecProto_def)
  have sq: "Seq ?resp = Seq ?r1" by simp
  have "codec (snd (WriteResponse L ?c1 ?resp body)) 42 = None
      \<and> calls (snd (WriteResponse L ?c1 ?resp body)) = [CallStore 42 CodecJSON, CallLoadAndDelete 42]"
    for L :: "'v codecs" and body
    using C4_entry_removed [OF rd sq, of L body] by simp
  then show ?thesis
    using rd by simp
qed

section \<open>Reading a request header: the options\<close>

text \<open>
  C8, as amended. For every frame the relay receives: if its option count is not two,
  \<open>ReadRequestHeader\<close> fails with the error \<^verbatim>\<open>should be 2 options\<close>, the request is
  untouched and the frame is put back into the pool; if it has exactly two options and
  the second does not exceed the length of the payload, \<open>ReadRequestHeader\<close> succeeds,
  the sequence number is option 0, the method name the first option-1 bytes of the
  payload, the frame is retained and the codec the flags select is stored.
\<close>

theorem C8_option_count:
  assumes "getFrame c = (f0, c1)" and "Receive (relay c1) f0 = (None, f, rl)"
  shows "(length (ReadOptions (header f)) \<noteq> 2 \<longrightarrow>
            ReadRequestHeader c r =
              (Returned (Some (E op_header None (Str two_options))), r,
               putFrame (c1\<lparr>relay := rl\<rparr>) f))
       \<and> (length (ReadOptions (header f)) = 2
            \<and> unat (ReadOptions (header f) ! 1) \<le> length (payload f) \<longrightarrow>
            ReadRequestHeader c r =
              (Returned None,
               r\<lparr>Seq := ucast (ReadOptions (header f) ! 0),
                  ServiceMethod := take (unat (ReadOptions (header f) ! 1)) (payload f)\<rparr>,
               c1\<lparr>relay := rl, frame := Some f,
                  codec := (codec c1)(ucast (ReadOptions (header f) ! 0) \<mapsto> remembered (ReadFlags f)),
                  calls := calls c1 @ [CallStore (ucast (ReadOptions (header f) ! 0))
                                         (remembered (ReadFlags f))]\<rparr>))"
  unfolding ReadRequestHeader_received [OF assms]
  by (simp add: Let_def)

text \<open>
  C8, as stated, fails on a frame with the two options 7 and 200 and a payload of three
  bytes: the slice of the first 200 payload bytes is out of range and the call panics.
\<close>

theorem C8_counterexample:
  "ReadOptions (header (wire_frame CodecJSON [7, 200] (bytes_of ''abc''))) = [7, 200]
   \<and> ReadRequestHeader
       (NewCodec \<lparr>rwc = \<lparr>pending = wire (wire_frame CodecJSON [7, 200] (bytes_of ''abc'')),
                         broken = False, deadliner = None, deadline = None\<rparr>,
                  sent = [], write_fails = False\<rparr>)
       \<lparr>ServiceMethod = [], Seq = 0\<rparr>
     = (Panic ''slice bounds out of range'', \<lparr>ServiceMethod = [], Seq = 7\<rparr>,
        \<lparr>relay = \<lparr>rwc = \<lparr>pending = [], broken = False, deadliner = None, deadline = None\<rparr>,
                   sent = [], write_fails = False\<rparr>,
         frame = None, codec = Map.empty, fPool = [], calls = []\<rparr>)"
proof -
  have "ReadRequestHeader
       (NewCodec \<lparr>rwc = \<lparr>pending = wire (wire_frame CodecJSON [7, 200] (bytes_of ''abc'')),
                         broken = False, deadliner = None, deadline = None\<rparr>,
                  sent = [], write_fails = False\<rparr>)
       \<lparr>ServiceMethod = [], Seq = 0\<rparr>
     = (Panic ''slice bounds out of range'', \<lparr>ServiceMethod = [], Seq = 7\<rparr>,
        \<lparr>relay = \<lparr>rwc = \<lparr>pending = [], broken = False, deadliner = None, deadline = None\<rparr>,
                   sent = [], write_fails = False\<rparr>,
         frame = None, codec = Map.empty, fPool = [], calls = []\<rparr>)"
    by (subst ReadRequestHeader_wire2 [where fl = CodecJSON and a = 7 and b = 200
          and p = "bytes_of ''abc''" and rest = "[]"])
       (simp_all add: NewCodec_def pool_reset_def bytes_of_def)
  then show ?thesis
    by (simp add: wire2_facts)
qed

text \<open>The amended C8 on a new codec, at a frame without options (HL = 3, flags JSON, no
  payload) and at a JSON request with the options 42 and 8.\<close>

theorem C8_option_count_witness:
  "getFrame (NewCodec \<lparr>rwc = \<lparr>pending = [0x31, 0x02, 0, 0, 0, 0, 0, 0]
                                  @ u32_bytes (ChecksumIEEE [0x31, 0x02, 0, 0, 0, 0, 0, 0]),
                         broken = False, deadliner = None, deadline = None\<rparr>,
                  sent = [], write_fails = False\<rparr>)
     = (NewFrame,
        NewCodec \<lparr>rwc = \<lparr>pending = [0x31, 0x02, 0, 0, 0, 0, 0, 0]
                                  @ u32_bytes (ChecksumIEEE [0x31, 0x02, 0, 0, 0, 0, 0, 0]),
                         broken = False, deadliner = None, deadline = None\<rparr>,
                  sent = [], write_fails = False\<rparr>)
   \<and> length (ReadOptions ([0x31, 0x02, 0, 0, 0, 0, 0, 0]
                              @ u32_bytes (ChecksumIEEE [0x31, 0x02, 0, 0, 0, 0, 0, 0]))) \<noteq> 2
   \<and> ReadRequestHeader
       (NewCodec \<lparr>rwc = \<lparr>pending = [0x31, 0x02, 0, 0, 0, 0, 0, 0]
                                  @ u32_bytes (ChecksumIEEE [0x31, 0x02, 0, 0, 0, 0, 0, 0]),
                         broken = False, deadliner = None, deadline = None\<rparr>,
                  sent = [], write_fails = False\<rparr>)
       \<lparr>ServiceMethod = [], Seq = 0\<rparr>
     = (Returned (Some (E op_header None (Str two_options))), \<lparr>ServiceMethod = [], Seq = 0\<rparr>,
        \<lparr>relay = \<lparr>rwc = \<lparr>pending = [], broken = False, deadliner = None, deadline = None\<rparr>,
                   sent = [], write_fails = False\<rparr>,
         frame = None, codec = Map.empty, fPool = [NewFrame], calls = []\<rparr>)
   \<and> length (ReadOptions (header (wire_frame CodecJSON [42, 8] (bytes_of ''Svc.Ping{}'')))) = 2
   \<and> unat (ReadOptions (header (wire_frame CodecJSON [42, 8] (bytes_of ''Svc.Ping{}''))) ! 1)
       \<le> length (payload (wire_frame CodecJSON [42, 8] (bytes_of ''Svc.Ping{}'')))
   \<and> ReadRequestHeader
       (NewCodec \<lparr>rwc = \<lparr>pending = wire (wire_frame CodecJSON [42, 8] (bytes_of ''Svc.Ping{}'')),
                         broken = False, deadliner = None, deadline = None\<rparr>,
                  sent = [], write_fails = False\<rparr>)
       \<lparr>ServiceMethod = [], Seq = 0\<rparr>
     = (Returned None, \<lparr>ServiceMethod = bytes_of ''Svc.Ping'', Seq = 42\<rparr>,
        \<lparr>relay = \<lparr>rwc = \<lparr>pending = [], broken = False, deadliner = None, deadline = None\<rparr>,
                   sent = [], write_fails = False\<rparr>,
         frame = Some (wire_frame CodecJSON [42, 8] (bytes_of ''Svc.Ping{}'')),
         codec = [42 \<mapsto> CodecJSON], fPool = [], calls = [CallStore 42 CodecJSON]\<rparr>)"
proof -
  let ?h = "[0x31, 0x02, 0, 0, 0, 0, 0, 0] @ u32_bytes (ChecksumIEEE [0x31, 0x02, 0, 0, 0, 0, 0, 0])"
  let ?rl0 = "\<lparr>rwc = \<lparr>pending = ?h, broken = False, deadliner = None, deadline = None\<rparr>,
                sent = [], write_fails = False\<rparr>"
  let ?F = "wire_frame CodecJSON [42, 8] (bytes_of ''Svc.Ping{}'')"
  let ?rl2 = "\<lparr>rwc = \<lparr>pending = wire ?F, broken = False, deadliner = None, deadline = None\<rparr>,
                sent = [], write_fails = False\<rparr>"
  have g0: "getFrame (NewCodec ?rl0) = (NewFrame, NewCodec ?rl0)"
    by (simp add: getFrame_def NewCodec_def)
  have r0: "Receive (relay (NewCodec ?rl0)) NewFrame
              = (None, \<lparr>header = ?h, payload = []\<rparr>, ?rl0\<lparr>rwc := (rwc ?rl0)\<lparr>pending := []\<rparr>\<rparr>)"
    using Receive_no_options [of ?rl0 "0x02"] by (simp add: NewCodec_def)
  have o0: "length (ReadOptions ?h) \<noteq> 2"
    by (simp add: ReadOptions_def ReadHL_def)
  have g2: "getFrame (NewCodec ?rl2) = (NewFrame, NewCodec ?rl2)"
    by (simp add: getFrame_def NewCodec_def)
  have r2: "Receive (relay (NewCodec ?rl2)) NewFrame
              = (None, ?F, ?rl2\<lparr>rwc := (rwc ?rl2)\<lparr>pending := []\<rparr>\<rparr>)"
    using Receive_wire2 [of ?rl2 CodecJSON 42 8 "bytes_of ''Svc.Ping{}''" "[]"]
    by (simp add: NewCodec_def bytes_of_def)
  have o2: "length (ReadOptions (header ?F)) = 2"
           "unat (ReadOptions (header ?F) ! 1) \<le> length (payload ?F)"
    by (simp_all add: wire2_facts bytes_of_def)
  have k: "remembered (ReadFlags ?F) = CodecJSON"
    by (simp add: wire2_facts remembered_def CodecJSON_def CodecProto_def)
  show ?thesis
    using C8_option_count [OF g0 r0, of "\<lparr>ServiceMethod = [], Seq = 0\<rparr>"] o0
          C8_option_count [OF g2 r2, of "\<lparr>ServiceMethod = [], Seq = 0\<rparr>"] o2 g0 k
    by (simp add: NewCodec_def putFrame_def Reset_def wire2_facts bytes_of_def)
qed

text \<open>
  C10. For every frame the relay receives that has exactly two options, the second of
  which exceeds the length of the payload, \<open>ReadRequestHeader\<close> panics in the slice
  expression that extracts the method name: it does not return an error. The sequence
  number is already written to the request, and the frame is neither retained nor put
  back into the pool.
\<close>

theorem C10_method_length_unguarded:
  assumes "getFrame c = (f0, c1)" and "Receive (relay c1) f0 = (None, f, rl)"
    and "length (ReadOptions (header f)) = 2"
    and "length (payload f) < unat (ReadOptions (header f) ! 1)"
  shows "ReadRequestHeader c r =
           (Panic ''slice bounds out of range'', r\<lparr>Seq := ucast (ReadOptions (header f) ! 0)\<rparr>,
            c1\<lparr>relay := rl\<rparr>)"
  unfolding ReadRequestHeader_received [OF assms(1,2)]
  using assms(3,4) by (simp add: Let_def)

text \<open>C10 on a new codec, at a JSON frame with the options 9 and 300 and the payload
  \<^verbatim>\<open>Svc.Ping\<close>.\<close>

theorem C10_method_length_unguarded_witness:
  "getFrame (NewCodec \<lparr>rwc = \<lparr>pending = wire (wire_frame CodecJSON [9, 300] (bytes_of ''Svc.Ping'')),
                         broken = False, deadliner = None, deadline = None\<rparr>,
                  sent = [], write_fails = False\<rparr>)
     = (NewFrame,
        NewCodec \<lparr>rwc = \<lparr>pending = wire (wire_frame CodecJSON [9, 300] (bytes_of ''Svc.Ping'')),
                         broken = False, deadliner = None, deadline = None\<rparr>,
                  sent = [], write_fails = False\<rparr>)
   \<and> Receive \<lparr>rwc = \<lparr>pending = wire (wire_frame CodecJSON [9, 300] (bytes_of ''Svc.Ping'')),
                      broken = False, deadliner = None, deadline = None\<rparr>,
               sent = [], write_fails = False\<rparr> NewFrame
     = (None, wire_frame CodecJSON [9, 300] (bytes_of ''Svc.Ping''),
        \<lparr>rwc = \<lparr>pending = [], broken = False, deadliner = None, deadline = None\<rparr>,
         sent = [], write_fails = False\<rparr>)
   \<and> length (ReadOptions (header (wire_frame CodecJSON [9, 300] (bytes_of ''Svc.Ping'')))) = 2
   \<and> length (payload (wire_frame CodecJSON [9, 300] (bytes_of ''Svc.Ping'')))
       < unat (ReadOptions (header (wire_frame CodecJSON [9, 300] (bytes_of ''Svc.Ping''))) ! 1)
   \<and> ReadRequestHeader
       (NewCodec \<lparr>rwc = \<lparr>pending = wire (wire_frame CodecJSON [9, 300] (bytes_of ''Svc.Ping'')),
                         broken = False, deadliner = None, deadline = None\<rparr>,
                  sent = [], write_fails = False\<rparr>)
       \<lparr>ServiceMethod = [], Seq = 0\<rparr>
     = (Panic ''slice bounds out of range'', \<lparr>ServiceMethod = [], Seq = 9\<rparr>,
        \<lparr>relay = \<lparr>rwc = \<lparr>pending = [], broken = False, deadliner = None, deadline = None\<rparr>,
                   sent = [], write_fails = False\<rparr>,
         frame = None, codec = Map.empty, fPool = [], calls = []\<rparr>)"
proof -
  let ?F = "wire_frame CodecJSON [9, 300] (bytes_of ''Svc.Ping'')"
  let ?rl = "\<lparr>rwc = \<lparr>pending = wire ?F, broken = False, deadliner = None, deadline = None\<rparr>,
                sent = [], write_fails = False\<rparr>"
  have g: "getFrame (NewCodec ?rl) = (NewFrame, NewCodec ?rl)"
    by (simp add: getFrame_def NewCodec_def)
  have r: "Receive (relay (NewCodec ?rl)) NewFrame
              = (None, ?F, ?rl\<lparr>rwc := (rwc ?rl)\<lparr>pending := []\<rparr>\<rparr>)"
    using Receive_wire2 [of ?rl CodecJSON 9 300 "bytes_of ''Svc.Ping''" "[]"]
    by (simp add: NewCodec_def bytes_of_def)
  have o: "length (ReadOptions (header ?F)) = 2"
          "length (payload ?F) < unat (ReadOptions (header ?F) ! 1)"
    by (simp_all add: wire2_facts bytes_of_def)
  show ?thesis
    using C10_method_length_unguarded [OF g r o, of "\<lparr>ServiceMethod = [], Seq = 0\<rparr>"] g r o
    by (simp add: NewCodec_def wire2_facts)
qed

section \<open>Reading a request body: the frame and the pool\<close>

lemma ReadRequestBody_puts_frame:
  "out \<noteq> AnyNil \<Longrightarrow>
   snd (snd (ReadRequestBody L (c\<lparr>frame := Some f\<rparr>) out))
     = c\<lparr>frame := Some NewFrame, fPool := NewFrame # fPool c\<rparr>"
  by (simp add: ReadRequestBody_def putFrame_def Reset_def split: prod.splits)

text \<open>
  C9. The claim: every call of \<open>ReadRequestBody\<close> puts the retained frame back into the
  pool, also when \<open>out\<close> is \<^verbatim>\<open>nil\<close>. The \<^verbatim>\<open>nil\<close> check returns before the \<^verbatim>\<open>defer\<close>
  statement: with \<open>out\<close> \<^verbatim>\<open>nil\<close> the call returns success and the codec is unchanged, the
  frame still retained and the pool as it was. (For every other \<open>out\<close> the frame is put
  back on every way out, \<open>ReadRequestBody_puts_frame\<close>.)
\<close>

theorem C9_nil_out_keeps_frame:
  "ReadRequestBody L (c\<lparr>frame := Some f\<rparr>) AnyNil = (Returned None, AnyNil, c\<lparr>frame := Some f\<rparr>)
   \<and> fPool (snd (snd (ReadRequestBody L (c\<lparr>frame := Some f\<rparr>) AnyNil))) = fPool c"
  by (simp add: ReadRequestBody_def)

section \<open>The codec remembered for a request\<close>




end
